theory Spec2Isabelle
  imports Complex_Main
begin

section \<open>Tensors and scalar comparison\<close>

text \<open>
  A tensor element is a floating-point number. The detector only compares elements with a
  threshold, so an element is modelled by the real number it denotes, or by \<open>NaN\<close>, which
  compares false with everything (itself included). The two infinities, which compare like
  numbers beyond all others, are left out.
\<close>

datatype float = NaN | Fin real

fun float_gt :: "float \<Rightarrow> float \<Rightarrow> bool" where
  "float_gt (Fin a) (Fin b) = (a > b)"
| "float_gt _ _ = False"

fun float_ge :: "float \<Rightarrow> float \<Rightarrow> bool" where
  "float_ge (Fin a) (Fin b) = (a \<ge> b)"
| "float_ge _ _ = False"


text \<open>Rank-4 tensors (regions, channels, height, width) and rank-2 tensors (rows of a box table).\<close>

type_synonym tensor4 = "float list list list list"
type_synonym boxes = "float list list"
type_synonym labels = "int list"

definition map4 :: "('a \<Rightarrow> 'b) \<Rightarrow> 'a list list list list \<Rightarrow> 'b list list list list" where
  "map4 f = map (map (map (map f)))"

definition all4 :: "('a \<Rightarrow> bool) \<Rightarrow> 'a list list list list \<Rightarrow> bool" where
  "all4 p = list_all (list_all (list_all (list_all p)))"

text \<open>\<^verbatim>\<open>t >= thr\<close> and \<^verbatim>\<open>t > thr\<close>: elementwise, giving a boolean tensor.\<close>

definition tensor_ge :: "tensor4 \<Rightarrow> float \<Rightarrow> bool list list list list" where
  "tensor_ge t thr = map4 (\<lambda>v. float_ge v thr) t"

definition tensor_gt :: "tensor4 \<Rightarrow> float \<Rightarrow> bool list list list list" where
  "tensor_gt t thr = map4 (\<lambda>v. float_gt v thr) t"

text \<open>\<^verbatim>\<open>.float()\<close> on a boolean tensor: \<open>True\<close> is 1.0, \<open>False\<close> is 0.0.\<close>

definition bool_to_float :: "bool \<Rightarrow> float" where
  "bool_to_float b = (if b then Fin 1 else Fin 0)"

definition to_float :: "bool list list list list \<Rightarrow> tensor4" where
  "to_float = map4 bool_to_float"

text \<open>\<^verbatim>\<open>t[:,1:,:,:]\<close>: every region loses its first (background) channel.\<close>

definition drop_bg :: "tensor4 \<Rightarrow> tensor4" where
  "drop_bg t = map (drop 1) t"

text \<open>A hard mask: every entry is 0.0 or 1.0.\<close>

definition is_hard :: "float \<Rightarrow> bool" where
  "is_hard v = (v = Fin 0 \<or> v = Fin 1)"

definition binary4 :: "tensor4 \<Rightarrow> bool" where
  "binary4 = all4 is_hard"

section \<open>Python values and failures\<close>

text \<open>Every exception the detector can raise by itself is a value of this type.\<close>

datatype error =
    AttributeError string
  | UnboundLocalError string
  | TypeError string
  | IndexError
  | RuntimeError
  | AssertionError

text \<open>
  A configuration is a nested dictionary read by attribute: \<^verbatim>\<open>cfg.rcnn.refine_sample\<close>.
  Reading a key that is not there, or reading a key of something that is not a
  dictionary, raises \<open>AttributeError\<close>.
\<close>

datatype cfg = CNone | CStr string | CNum float | CDict "(string \<times> cfg) list"

fun getattr :: "cfg \<Rightarrow> string \<Rightarrow> error + cfg" where
  "getattr (CDict kvs) k =
     (case map_of kvs k of None \<Rightarrow> Inl (AttributeError k) | Some v \<Rightarrow> Inr v)"
| "getattr _ k = Inl (AttributeError k)"

text \<open>\<^verbatim>\<open>cfg.get(key, default)\<close>; the default is an argument, evaluated by the caller.\<close>

fun cfg_get :: "cfg \<Rightarrow> string \<Rightarrow> cfg \<Rightarrow> error + cfg" where
  "cfg_get (CDict kvs) k dflt = (case map_of kvs k of None \<Rightarrow> Inr dflt | Some v \<Rightarrow> Inr v)"
| "cfg_get _ k dflt = Inl (AttributeError ''get'')"

text \<open>The right operand of a tensor comparison must be a number.\<close>

fun as_number :: "cfg \<Rightarrow> error + float" where
  "as_number (CNum f) = Inr f"
| "as_number _ = Inl (TypeError ''comparison'')"

text \<open>\<^verbatim>\<open>xs[i]\<close> on a list, and on a value that may be \<open>None\<close>.\<close>

definition index :: "'a list \<Rightarrow> nat \<Rightarrow> error + 'a" where
  "index xs i = (if i < length xs then Inr (xs ! i) else Inl IndexError)"

definition subscript :: "'a list option \<Rightarrow> nat \<Rightarrow> error + 'a" where
  "subscript v i = (case v of None \<Rightarrow> Inl (TypeError ''NoneType is not subscriptable'')
                    | Some xs \<Rightarrow> index xs i)"

text \<open>A local variable that is assigned on some paths only: reading it unassigned raises.\<close>

definition read_local :: "string \<Rightarrow> 'a option \<Rightarrow> error + 'a" where
  "read_local name v = (case v of None \<Rightarrow> Inl (UnboundLocalError name) | Some a \<Rightarrow> Inr a)"

text \<open>\<^verbatim>\<open>torch.cat\<close> along the first axis; it refuses an empty list of tensors.\<close>

definition torch_cat :: "'a list list \<Rightarrow> error + 'a list" where
  "torch_cat ts = (if ts = [] then Inl RuntimeError else Inr (concat ts))"

text \<open>\<^verbatim>\<open>t[mask]\<close> with a 0/1 mask over the first axis: the rows where the mask is 1.\<close>

definition mask_select :: "'a list \<Rightarrow> bool list \<Rightarrow> error + 'a list" where
  "mask_select t m =
     (if length m = length t then Inr (map fst (filter snd (zip t m))) else Inl IndexError)"

text \<open>
  \<^verbatim>\<open>F.max_pool2d(input, kernel_size, stride=None, ...)\<close>: the kernel size has no default,
  so a call without it raises \<open>TypeError\<close> before anything is pooled.
\<close>

definition F_max_pool2d :: "(tensor4 \<Rightarrow> nat \<times> nat \<Rightarrow> tensor4) \<Rightarrow> tensor4 \<Rightarrow> (nat \<times> nat) option
    \<Rightarrow> error + tensor4" where
  "F_max_pool2d pool t kernel_size =
     (case kernel_size of None \<Rightarrow> Inl (TypeError ''max_pool2d: kernel_size'')
      | Some k \<Rightarrow> Inr (pool t k))"

section \<open>Collaborators and the call trace\<close>

text \<open>
  The backbone, the heads, the RoI extractors and the tensor library are collaborators:
  the detector calls them and passes their results on. Each such call is logged, so that
  a property can say which collaborator was called, on what, and in which order. A
  collaborator is a function here: it returns, and what it could raise by itself is not
  part of the model. The errors of the model are those the detector's own code raises.
  A call of a head or of an extractor is logged with the tensors it is given; the target
  builder of the refinement head, which is given the sampling results, is logged with
  their positive boxes, image by image.
\<close>

datatype call =
    ExtractFeat tensor4
  | RpnHead "tensor4 list"
  | RpnLoss
  | RpnGetBboxes cfg
  | Assign nat
  | Sample nat
  | BboxRoiExtractor "tensor4 list" boxes
  | MaskRoiExtractor "tensor4 list" boxes
  | SharedHead tensor4
  | BboxHead tensor4
  | BboxGetTarget
  | BboxLoss
  | MaskHead tensor4
  | MaskGetTarget
  | MaskLoss cfg
  | Interpolate tensor4 "nat \<times> nat"
  | RefineHead tensor4 tensor4
  | RefineGetTarget "boxes list"
  | RefineLoss
  | GetDetBboxes boxes boxes boxes bool cfg
  | GetSegMasks tensor4 boxes
  | SimpleTestRpn
  | SimpleTestBboxes cfg
  | Bbox2Result boxes labels

text \<open>A computation reads and extends the trace and ends in a value or in an error.\<close>

type_synonym 'a prog = "call list \<Rightarrow> (error + 'a) \<times> call list"

definition ret :: "'a \<Rightarrow> 'a prog" where
  "ret v tr = (Inr v, tr)"

definition lift :: "error + 'a \<Rightarrow> 'a prog" where
  "lift r tr = (r, tr)"

definition invoke :: "call \<Rightarrow> 'a \<Rightarrow> 'a prog" where
  "invoke c v tr = (Inr v, tr @ [c])"

definition bind :: "'a prog \<Rightarrow> ('a \<Rightarrow> 'b prog) \<Rightarrow> 'b prog" where
  "bind m f tr = (case m tr of (Inl e, tr') \<Rightarrow> (Inl e, tr') | (Inr v, tr') \<Rightarrow> f v tr')"

record img_meta =
  ori_shape :: "nat list"
  img_shape :: "nat list"
  scale_factor :: float

text \<open>
  The part of a sampling result the detector reads; \<open>rest\<close> stands for what only the
  heads read.
\<close>

record 'o sampling_result =
  bboxes :: boxes
  pos_bboxes :: boxes
  neg_bboxes :: boxes
  pos_gt_labels :: labels
  rest :: 'o

text \<open>
  \<^verbatim>\<open>bbox2roi\<close> enumerates its argument. The detector gives it a list of box tensors, one
  per image, and in \<^verbatim>\<open>refine_test_bboxes\<close> whatever the caller passed as proposals,
  which \<^verbatim>\<open>simple_test\<close> makes a single box tensor.
\<close>

datatype bbox_list = BoxList "boxes list" | BoxTensor boxes

text \<open>
  The detector object: its capability flags, its two configurations, and its collaborators
  as functions. \<open>'o\<close> is the type of the values only collaborators look into (RPN outputs,
  assignments, targets, ground-truth masks, results); \<open>'l\<close> is the type of a loss value.
  The functions the module imports (\<^verbatim>\<open>bbox2roi\<close>, \<^verbatim>\<open>build_assigner\<close>, \<^verbatim>\<open>build_sampler\<close>,
  \<^verbatim>\<open>bbox2result\<close>, \<^verbatim>\<open>F.interpolate\<close>, the pooling behind \<^verbatim>\<open>F.max_pool2d\<close>, the tensor
  product) and the methods inherited from the base classes (\<^verbatim>\<open>simple_test_rpn\<close>,
  \<^verbatim>\<open>simple_test_bboxes\<close>) are carried along in the same record.
\<close>

record ('o, 'l) detector =
  with_rpn :: bool
  with_bbox :: bool
  with_mask :: bool
  with_shared_head :: bool
  share_roi_extractor :: bool
  train_cfg :: cfg
  test_cfg :: cfg
  extract_feat :: "tensor4 \<Rightarrow> tensor4 list"
  rpn_head :: "tensor4 list \<Rightarrow> 'o"
  rpn_head_loss :: "'o \<Rightarrow> boxes list \<Rightarrow> img_meta list \<Rightarrow> cfg \<Rightarrow> boxes option list option
                     \<Rightarrow> (string \<rightharpoonup> 'l)"
  rpn_head_get_bboxes :: "'o \<Rightarrow> img_meta list \<Rightarrow> cfg \<Rightarrow> boxes list"
  build_assigner :: "cfg \<Rightarrow> boxes \<Rightarrow> boxes \<Rightarrow> boxes option \<Rightarrow> labels \<Rightarrow> 'o"
  build_sampler :: "cfg \<Rightarrow> 'o \<Rightarrow> boxes \<Rightarrow> boxes \<Rightarrow> labels \<Rightarrow> tensor4 list
                     \<Rightarrow> 'o sampling_result"
  bbox2roi :: "bbox_list \<Rightarrow> boxes"
  bbox_roi_extractor :: "tensor4 list \<Rightarrow> boxes \<Rightarrow> tensor4"
  bbox_roi_extractor_num_inputs :: nat
  mask_roi_extractor :: "tensor4 list \<Rightarrow> boxes \<Rightarrow> tensor4"
  mask_roi_extractor_num_inputs :: nat
  mask_roi_extractor_featmap_strides :: "nat list"
  shared_head :: "tensor4 \<Rightarrow> tensor4"
  bbox_head :: "tensor4 \<Rightarrow> boxes \<times> boxes"
  bbox_head_get_target :: "'o sampling_result list \<Rightarrow> boxes list \<Rightarrow> labels list \<Rightarrow> cfg \<Rightarrow> 'o"
  bbox_head_loss :: "boxes \<Rightarrow> boxes \<Rightarrow> 'o \<Rightarrow> (string \<rightharpoonup> 'l)"
  bbox_head_get_det_bboxes :: "boxes \<Rightarrow> boxes \<Rightarrow> boxes \<Rightarrow> nat list \<Rightarrow> float \<Rightarrow> bool \<Rightarrow> cfg
                                \<Rightarrow> boxes \<times> labels"
  bbox_head_num_classes :: nat
  mask_head :: "tensor4 \<Rightarrow> tensor4"
  mask_head_get_target :: "'o sampling_result list \<Rightarrow> 'o option \<Rightarrow> cfg \<Rightarrow> 'o \<times> 'o"
  mask_head_loss :: "tensor4 \<Rightarrow> 'o \<Rightarrow> 'o \<Rightarrow> labels \<Rightarrow> cfg \<Rightarrow> (string \<rightharpoonup> 'l)"
  mask_head_get_seg_masks :: "tensor4 \<Rightarrow> boxes \<Rightarrow> labels \<Rightarrow> cfg \<Rightarrow> nat list \<Rightarrow> float \<Rightarrow> bool
                               \<Rightarrow> 'o list list"
  mask_head_num_classes :: nat
  mask_iou_head :: "tensor4 \<Rightarrow> tensor4 \<Rightarrow> boxes \<times> boxes"
  mask_iou_head_get_target :: "'o sampling_result list \<Rightarrow> boxes list \<Rightarrow> labels list \<Rightarrow> cfg
                                \<Rightarrow> 'o"
  mask_iou_head_loss :: "boxes \<Rightarrow> boxes \<Rightarrow> 'o \<Rightarrow> (string \<rightharpoonup> 'l)"
  F_interpolate :: "tensor4 \<Rightarrow> nat \<times> nat \<Rightarrow> tensor4"
  max_pool :: "tensor4 \<Rightarrow> nat \<times> nat \<Rightarrow> tensor4"
  mul_scalar :: "boxes \<Rightarrow> float \<Rightarrow> boxes"
  simple_test_rpn :: "tensor4 list \<Rightarrow> img_meta list \<Rightarrow> cfg \<Rightarrow> boxes list"
  simple_test_bboxes :: "tensor4 list \<Rightarrow> img_meta list \<Rightarrow> boxes list \<Rightarrow> cfg \<Rightarrow> bool
                          \<Rightarrow> boxes \<times> labels"
  bbox2result :: "boxes \<Rightarrow> labels \<Rightarrow> nat \<Rightarrow> 'o"

section \<open>The training step: \<^verbatim>\<open>forward_train\<close>\<close>

text \<open>RPN forward and loss; the proposals are the caller's when there is no RPN.\<close>

definition rpn_stage :: "('o, 'l) detector \<Rightarrow> tensor4 list \<Rightarrow> img_meta list \<Rightarrow> boxes list
    \<Rightarrow> boxes option list option \<Rightarrow> boxes list option \<Rightarrow> (string \<rightharpoonup> 'l)
    \<Rightarrow> ((string \<rightharpoonup> 'l) \<times> boxes list option) prog" where
  "rpn_stage self x img_meta gt_bboxes gt_bboxes_ignore proposals losses =
     (if with_rpn self then
        bind (invoke (RpnHead x) (rpn_head self x)) (\<lambda>rpn_outs.
        bind (lift (getattr (train_cfg self) ''rpn'')) (\<lambda>train_rpn.
        bind (invoke RpnLoss
               (rpn_head_loss self rpn_outs gt_bboxes img_meta train_rpn gt_bboxes_ignore))
          (\<lambda>rpn_losses.
        bind (lift (getattr (test_cfg self) ''rpn'')) (\<lambda>test_rpn.
        bind (lift (cfg_get (train_cfg self) ''rpn_proposal'' test_rpn)) (\<lambda>proposal_cfg.
        bind (invoke (RpnGetBboxes proposal_cfg)
               (rpn_head_get_bboxes self rpn_outs img_meta proposal_cfg))
          (\<lambda>proposal_list.
        ret (losses ++ rpn_losses, Some proposal_list)))))))
      else ret (losses, proposals))"

text \<open>\<^verbatim>\<open>[lvl_feat[i][None] for lvl_feat in x]\<close>\<close>

fun level_feats :: "tensor4 list \<Rightarrow> nat \<Rightarrow> error + tensor4 list" where
  "level_feats [] i = Inr []"
| "level_feats (lvl_feat # x) i =
     (case index lvl_feat i of Inl e \<Rightarrow> Inl e
      | Inr f \<Rightarrow> (case level_feats x i of Inl e \<Rightarrow> Inl e | Inr fs \<Rightarrow> Inr ([f] # fs)))"

text \<open>The loop over the images: assign, then sample, and append in image order.\<close>

fun sample_loop :: "(boxes \<Rightarrow> boxes \<Rightarrow> boxes option \<Rightarrow> labels \<Rightarrow> 'o)
    \<Rightarrow> ('o \<Rightarrow> boxes \<Rightarrow> boxes \<Rightarrow> labels \<Rightarrow> tensor4 list \<Rightarrow> 'o sampling_result)
    \<Rightarrow> tensor4 list \<Rightarrow> boxes list option \<Rightarrow> boxes list \<Rightarrow> boxes option list \<Rightarrow> labels list
    \<Rightarrow> nat list \<Rightarrow> 'o sampling_result list \<Rightarrow> 'o sampling_result list prog" where
  "sample_loop assign sample x proposal_list gt_bboxes gt_bboxes_ignore gt_labels []
       sampling_results = ret sampling_results"
| "sample_loop assign sample x proposal_list gt_bboxes gt_bboxes_ignore gt_labels (i # rest_imgs)
       sampling_results =
     bind (lift (subscript proposal_list i)) (\<lambda>p.
     bind (lift (index gt_bboxes i)) (\<lambda>g.
     bind (lift (index gt_bboxes_ignore i)) (\<lambda>gi.
     bind (lift (index gt_labels i)) (\<lambda>gl.
     bind (invoke (Assign i) (assign p g gi gl)) (\<lambda>assign_result.
     bind (lift (level_feats x i)) (\<lambda>feats.
     bind (invoke (Sample i) (sample assign_result p g gl feats)) (\<lambda>sampling_result.
     sample_loop assign sample x proposal_list gt_bboxes gt_bboxes_ignore gt_labels rest_imgs
       (sampling_results @ [sampling_result]))))))))"

text \<open>
  Assign ground truth and sample proposals. \<^verbatim>\<open>sampling_results\<close> is a local variable that
  stays unassigned when neither the box head nor the mask head is there.
\<close>

definition sample_stage :: "('o, 'l) detector \<Rightarrow> tensor4 \<Rightarrow> tensor4 list \<Rightarrow> boxes list option
    \<Rightarrow> boxes list \<Rightarrow> labels list \<Rightarrow> boxes option list option
    \<Rightarrow> 'o sampling_result list option prog" where
  "sample_stage self img x proposal_list gt_bboxes gt_labels gt_bboxes_ignore =
     (if with_bbox self \<or> with_mask self then
        bind (lift (getattr (train_cfg self) ''rcnn'')) (\<lambda>rcnn.
        bind (lift (getattr rcnn ''assigner'')) (\<lambda>assigner_cfg.
        bind (lift (getattr (train_cfg self) ''rcnn'')) (\<lambda>rcnn.
        bind (lift (getattr rcnn ''sampler'')) (\<lambda>sampler_cfg.
        let num_imgs = length img;
            gt_bboxes_ignore = (case gt_bboxes_ignore of None \<Rightarrow> replicate num_imgs None
                                | Some ign \<Rightarrow> ign)
        in
        bind (sample_loop (build_assigner self assigner_cfg) (build_sampler self sampler_cfg)
                x proposal_list gt_bboxes gt_bboxes_ignore gt_labels [0..<num_imgs] [])
          (\<lambda>sampling_results.
        ret (Some sampling_results))))))
      else ret None)"

text \<open>Box head forward and loss. \<^verbatim>\<open>bbox_feats\<close> stays unassigned without a box head.\<close>

definition bbox_stage :: "('o, 'l) detector \<Rightarrow> tensor4 list \<Rightarrow> 'o sampling_result list option
    \<Rightarrow> boxes list \<Rightarrow> labels list \<Rightarrow> (string \<rightharpoonup> 'l)
    \<Rightarrow> ((string \<rightharpoonup> 'l) \<times> tensor4 option) prog" where
  "bbox_stage self x sampling_results gt_bboxes gt_labels losses =
     (if with_bbox self then
        bind (lift (read_local ''sampling_results'' sampling_results)) (\<lambda>srs.
        let rois = bbox2roi self (BoxList (map bboxes srs));
            feats = take (bbox_roi_extractor_num_inputs self) x
        in
        bind (invoke (BboxRoiExtractor feats rois) (bbox_roi_extractor self feats rois))
          (\<lambda>bbox_feats.
        bind (if with_shared_head self
              then invoke (SharedHead bbox_feats) (shared_head self bbox_feats)
              else ret bbox_feats)
          (\<lambda>bbox_feats.
        bind (invoke (BboxHead bbox_feats) (bbox_head self bbox_feats))
          (\<lambda>(cls_score, bbox_pred).
        bind (lift (getattr (train_cfg self) ''rcnn'')) (\<lambda>rcnn.
        bind (invoke BboxGetTarget (bbox_head_get_target self srs gt_bboxes gt_labels rcnn))
          (\<lambda>bbox_targets.
        bind (invoke BboxLoss (bbox_head_loss self cls_score bbox_pred bbox_targets))
          (\<lambda>loss_bbox.
        ret (losses ++ loss_bbox, Some bbox_feats))))))))
      else ret (losses, None))"

text \<open>
  The features of the positive boxes for the mask head: pooled again from the positive
  boxes, which assigns \<^verbatim>\<open>pos_rois\<close>, or, when the RoI extractor is shared, the rows of
  \<^verbatim>\<open>bbox_feats\<close> picked by a 0/1 indicator, which leaves \<^verbatim>\<open>pos_rois\<close> unassigned.
\<close>

definition pool_mask_feats :: "('o, 'l) detector \<Rightarrow> tensor4 list \<Rightarrow> 'o sampling_result list
    \<Rightarrow> tensor4 option \<Rightarrow> (tensor4 \<times> boxes option) prog" where
  "pool_mask_feats self x srs bbox_feats =
     (if \<not> share_roi_extractor self then
        let pos_rois = bbox2roi self (BoxList (map pos_bboxes srs));
            feats = take (mask_roi_extractor_num_inputs self) x
        in
        bind (invoke (MaskRoiExtractor feats pos_rois) (mask_roi_extractor self feats pos_rois))
          (\<lambda>mask_feats.
        bind (if with_shared_head self
              then invoke (SharedHead mask_feats) (shared_head self mask_feats)
              else ret mask_feats)
          (\<lambda>mask_feats.
        ret (mask_feats, Some pos_rois)))
      else
        bind (lift (read_local ''bbox_feats'' bbox_feats)) (\<lambda>bbox_feats.
        bind (lift (torch_cat (concat (map (\<lambda>res.
                 [replicate (length (pos_bboxes res)) True,
                  replicate (length (neg_bboxes res)) False]) srs))))
          (\<lambda>pos_inds.
        bind (lift (mask_select bbox_feats pos_inds)) (\<lambda>mask_feats.
        ret (mask_feats, None)))))"

text \<open>The three-way \<^verbatim>\<open>refine_sample\<close> policy of the training step.\<close>

definition refine_feats_train :: "('o, 'l) detector \<Rightarrow> tensor4 list \<Rightarrow> tensor4 \<Rightarrow> boxes option
    \<Rightarrow> tensor4 prog" where
  "refine_feats_train self x mask_feats pos_rois =
     bind (lift (getattr (train_cfg self) ''rcnn'')) (\<lambda>rcnn.
     bind (lift (getattr rcnn ''refine_sample'')) (\<lambda>refine_sample.
     if refine_sample = CStr ''resample'' then
       let feats = take (bbox_roi_extractor_num_inputs self) x in
       bind (lift (read_local ''pos_rois'' pos_rois)) (\<lambda>pos_rois.
       invoke (BboxRoiExtractor feats pos_rois) (bbox_roi_extractor self feats pos_rois))
     else
       bind (lift (getattr (train_cfg self) ''rcnn'')) (\<lambda>rcnn.
       bind (lift (getattr rcnn ''refine_sample'')) (\<lambda>refine_sample.
       if refine_sample = CStr ''interpolate'' then
         invoke (Interpolate mask_feats (7, 7)) (F_interpolate self mask_feats (7, 7))
       else
         lift (F_max_pool2d (max_pool self) mask_feats None)))))"

text \<open>The refinement sub-step: features, hard mask, refinement head, targets, loss.\<close>

definition refine_stage :: "('o, 'l) detector \<Rightarrow> tensor4 list \<Rightarrow> 'o sampling_result list
    \<Rightarrow> tensor4 \<Rightarrow> boxes option \<Rightarrow> tensor4 \<Rightarrow> boxes list \<Rightarrow> labels list \<Rightarrow> (string \<rightharpoonup> 'l)
    \<Rightarrow> (string \<rightharpoonup> 'l) prog" where
  "refine_stage self x srs mask_feats pos_rois mask_pred gt_bboxes gt_labels losses =
     bind (refine_feats_train self x mask_feats pos_rois) (\<lambda>refine_feats.
     bind (lift (getattr (train_cfg self) ''rcnn'')) (\<lambda>rcnn.
     bind (lift (getattr rcnn ''mask_thr_binary'')) (\<lambda>mask_thr_binary.
     bind (lift (as_number mask_thr_binary)) (\<lambda>thr.
     let mask_pred = to_float (tensor_ge (drop_bg mask_pred) thr) in
     bind (invoke (RefineHead refine_feats mask_pred) (mask_iou_head self refine_feats mask_pred))
       (\<lambda>(refine_cls, refine_reg).
     bind (lift (getattr (train_cfg self) ''rcnn'')) (\<lambda>rcnn.
     bind (invoke (RefineGetTarget (map pos_bboxes srs))
            (mask_iou_head_get_target self srs gt_bboxes gt_labels rcnn))
       (\<lambda>refine_targets.
     bind (invoke RefineLoss (mask_iou_head_loss self refine_cls refine_reg refine_targets))
       (\<lambda>loss_refine.
     ret (losses ++ loss_refine)))))))))"

text \<open>Mask head forward and loss, followed by the refinement sub-step.\<close>

definition mask_stage :: "('o, 'l) detector \<Rightarrow> tensor4 list \<Rightarrow> 'o sampling_result list option
    \<Rightarrow> tensor4 option \<Rightarrow> boxes list \<Rightarrow> labels list \<Rightarrow> 'o option \<Rightarrow> (string \<rightharpoonup> 'l)
    \<Rightarrow> (string \<rightharpoonup> 'l) prog" where
  "mask_stage self x sampling_results bbox_feats gt_bboxes gt_labels gt_masks losses =
     (if with_mask self then
        bind (lift (read_local ''sampling_results'' sampling_results)) (\<lambda>srs.
        bind (pool_mask_feats self x srs bbox_feats) (\<lambda>(mask_feats, pos_rois).
        bind (invoke (MaskHead mask_feats) (mask_head self mask_feats)) (\<lambda>mask_pred.
        bind (lift (getattr (train_cfg self) ''rcnn'')) (\<lambda>rcnn.
        bind (invoke MaskGetTarget (mask_head_get_target self srs gt_masks rcnn))
          (\<lambda>(mask_targets, bg_targets).
        bind (lift (torch_cat (map pos_gt_labels srs))) (\<lambda>pos_labels.
        bind (lift (getattr (test_cfg self) ''rcnn'')) (\<lambda>test_rcnn.
        bind (invoke (MaskLoss test_rcnn)
               (mask_head_loss self mask_pred mask_targets bg_targets pos_labels test_rcnn))
          (\<lambda>loss_mask.
        refine_stage self x srs mask_feats pos_rois mask_pred gt_bboxes gt_labels
          (losses ++ loss_mask)))))))))
      else ret losses)"

definition forward_train :: "('o, 'l) detector \<Rightarrow> tensor4 \<Rightarrow> img_meta list \<Rightarrow> boxes list
    \<Rightarrow> labels list \<Rightarrow> boxes option list option \<Rightarrow> 'o option \<Rightarrow> boxes list option
    \<Rightarrow> (string \<rightharpoonup> 'l) prog" where
  "forward_train self img img_meta gt_bboxes gt_labels gt_bboxes_ignore gt_masks proposals =
     bind (invoke (ExtractFeat img) (extract_feat self img)) (\<lambda>x.
     bind (rpn_stage self x img_meta gt_bboxes gt_bboxes_ignore proposals Map.empty)
       (\<lambda>(losses, proposal_list).
     bind (sample_stage self img x proposal_list gt_bboxes gt_labels gt_bboxes_ignore)
       (\<lambda>sampling_results.
     bind (bbox_stage self x sampling_results gt_bboxes gt_labels losses)
       (\<lambda>(losses, bbox_feats).
     mask_stage self x sampling_results bbox_feats gt_bboxes gt_labels gt_masks losses))))"

section \<open>Inference\<close>

text \<open>The segmentation stage: \<^verbatim>\<open>simple_test_mask\<close>.\<close>

definition simple_test_mask :: "('o, 'l) detector \<Rightarrow> tensor4 list \<Rightarrow> img_meta list \<Rightarrow> boxes
    \<Rightarrow> labels \<Rightarrow> bool \<Rightarrow> 'o list list prog" where
  "simple_test_mask self x img_meta det_bboxes det_labels rescale =
     bind (lift (index img_meta 0)) (\<lambda>meta0.
     let ori_shape = ori_shape meta0; scale_factor = scale_factor meta0 in
     if length det_bboxes = 0 then
       ret (replicate (mask_head_num_classes self - 1) [])
     else
       let bboxes' = (if rescale then mul_scalar self (map (take 4) det_bboxes) scale_factor
                      else det_bboxes);
           mask_rois = bbox2roi self (BoxList [bboxes']);
           feats = take (length (mask_roi_extractor_featmap_strides self)) x
       in
       bind (invoke (MaskRoiExtractor feats mask_rois) (mask_roi_extractor self feats mask_rois))
         (\<lambda>mask_feats.
       bind (if with_shared_head self
             then invoke (SharedHead mask_feats) (shared_head self mask_feats)
             else ret mask_feats)
         (\<lambda>mask_feats.
       bind (invoke (MaskHead mask_feats) (mask_head self mask_feats)) (\<lambda>mask_pred.
       bind (lift (getattr (test_cfg self) ''rcnn'')) (\<lambda>test_rcnn.
       invoke (GetSegMasks mask_pred bboxes')
         (mask_head_get_seg_masks self mask_pred bboxes' det_labels test_rcnn ori_shape
            scale_factor rescale))))))"

text \<open>The three-way \<^verbatim>\<open>refine_sample\<close> policy of the refinement pass at inference.\<close>

definition refine_feats_test :: "('o, 'l) detector \<Rightarrow> tensor4 list \<Rightarrow> tensor4 \<Rightarrow> boxes
    \<Rightarrow> tensor4 prog" where
  "refine_feats_test self x roi_feats rois =
     bind (lift (getattr (test_cfg self) ''rcnn'')) (\<lambda>rcnn.
     bind (lift (getattr rcnn ''refine_sample'')) (\<lambda>refine_sample.
     if refine_sample = CStr ''resample'' then
       let feats = take (bbox_roi_extractor_num_inputs self) x in
       invoke (BboxRoiExtractor feats rois) (bbox_roi_extractor self feats rois)
     else
       bind (lift (getattr (test_cfg self) ''rcnn'')) (\<lambda>rcnn.
       bind (lift (getattr rcnn ''refine_sample'')) (\<lambda>refine_sample.
       if refine_sample = CStr ''interpolate'' then
         invoke (Interpolate roi_feats (7, 7)) (F_interpolate self roi_feats (7, 7))
       else
         lift (F_max_pool2d (max_pool self) roi_feats None)))))"

text \<open>The refinement pass: \<^verbatim>\<open>refine_test_bboxes\<close>.\<close>

definition refine_test_bboxes :: "('o, 'l) detector \<Rightarrow> tensor4 list \<Rightarrow> img_meta list \<Rightarrow> bbox_list
    \<Rightarrow> cfg \<Rightarrow> bool \<Rightarrow> (boxes \<times> labels) prog" where
  "refine_test_bboxes self x img_meta proposals rcnn_test_cfg rescale =
     (let rois = bbox2roi self proposals;
          feats = take (mask_roi_extractor_num_inputs self) x
      in
      bind (invoke (MaskRoiExtractor feats rois) (mask_roi_extractor self feats rois))
        (\<lambda>roi_feats.
      bind (invoke (MaskHead roi_feats) (mask_head self roi_feats)) (\<lambda>mask_out.
      let mask_pred = drop_bg mask_out in
      bind (refine_feats_test self x roi_feats rois) (\<lambda>refine_feats.
      bind (if with_shared_head self
            then invoke (SharedHead refine_feats) (shared_head self refine_feats)
            else ret refine_feats)
        (\<lambda>refine_feats.
      bind (lift (getattr rcnn_test_cfg ''rcnn'')) (\<lambda>rcnn.
      bind (lift (getattr rcnn ''mask_thr_binary'')) (\<lambda>mask_thr_binary.
      bind (lift (as_number mask_thr_binary)) (\<lambda>thr.
      let refine_masks = to_float (tensor_gt mask_pred thr) in
      bind (invoke (RefineHead refine_feats refine_masks)
             (mask_iou_head self refine_feats refine_masks))
        (\<lambda>(cls_score, bbox_pred).
      bind (lift (index img_meta 0)) (\<lambda>meta0.
      let img_shape = img_shape meta0 in
      bind (lift (index img_meta 0)) (\<lambda>meta0.
      let scale_factor = scale_factor meta0 in
      invoke (GetDetBboxes rois cls_score bbox_pred rescale rcnn_test_cfg)
        (bbox_head_get_det_bboxes self rois cls_score bbox_pred img_shape scale_factor rescale
           rcnn_test_cfg))))))))))))"

text \<open>Test without augmentation: \<^verbatim>\<open>simple_test\<close>.\<close>

definition simple_test :: "('o, 'l) detector \<Rightarrow> tensor4 \<Rightarrow> img_meta list \<Rightarrow> boxes list option
    \<Rightarrow> bool \<Rightarrow> ('o \<times> 'o list list option) prog" where
  "simple_test self img img_meta proposals rescale =
     (if \<not> with_bbox self then lift (Inl AssertionError)
      else
        bind (invoke (ExtractFeat img) (extract_feat self img)) (\<lambda>x.
        bind (case proposals of
                None \<Rightarrow>
                  bind (lift (getattr (test_cfg self) ''rpn'')) (\<lambda>test_rpn.
                  invoke SimpleTestRpn (simple_test_rpn self x img_meta test_rpn))
              | Some ps \<Rightarrow> ret ps)
          (\<lambda>proposal_list.
        bind (lift (getattr (test_cfg self) ''rcnn'')) (\<lambda>test_rcnn.
        bind (invoke (SimpleTestBboxes test_rcnn)
               (simple_test_bboxes self x img_meta proposal_list test_rcnn rescale))
          (\<lambda>(det_bboxes, det_labels).
        bind (lift (getattr (test_cfg self) ''rcnn'')) (\<lambda>test_rcnn.
        bind (refine_test_bboxes self x img_meta (BoxTensor det_bboxes) test_rcnn rescale)
          (\<lambda>(det_bboxes, det_labels).
        bind (invoke (Bbox2Result det_bboxes det_labels)
               (bbox2result self det_bboxes det_labels (bbox_head_num_classes self)))
          (\<lambda>bbox_results.
        if \<not> with_mask self then ret (bbox_results, None)
        else
          bind (simple_test_mask self x img_meta det_bboxes det_labels rescale)
            (\<lambda>segm_results.
          ret (bbox_results, Some segm_results))))))))))"

section \<open>Specification vocabulary\<close>

text \<open>
  \<open>triple I m Q\<close>: started in a trace that satisfies \<open>I\<close>, the computation \<open>m\<close> leaves a
  trace that satisfies \<open>I\<close>, whether it returns or raises, and a returned value satisfies
  \<open>Q\<close>.
\<close>

definition triple :: "(call list \<Rightarrow> bool) \<Rightarrow> 'a prog \<Rightarrow> ('a \<Rightarrow> bool) \<Rightarrow> bool" where
  "triple I m Q = (\<forall>tr. I tr \<longrightarrow> I (snd (m tr)) \<and> (\<forall>v. fst (m tr) = Inr v \<longrightarrow> Q v))"

text \<open>Predicates on a logged call.\<close>

definition is_refine_head :: "call \<Rightarrow> bool" where
  "is_refine_head c = (case c of RefineHead f m \<Rightarrow> True | _ \<Rightarrow> False)"

definition hard_refine_call :: "call \<Rightarrow> bool" where
  "hard_refine_call c = (case c of RefineHead f m \<Rightarrow> binary4 m | _ \<Rightarrow> True)"







text \<open>Each stage's loss function names the same losses on every call.\<close>

definition fixed_loss_keys :: "('o, 'l) detector \<Rightarrow> string set \<Rightarrow> string set \<Rightarrow> string set
    \<Rightarrow> string set \<Rightarrow> bool" where
  "fixed_loss_keys self K_rpn K_bbox K_mask K_refine =
     ((\<forall>outs gt meta c ign. dom (rpn_head_loss self outs gt meta c ign) = K_rpn) \<and>
      (\<forall>cls reg tgt. dom (bbox_head_loss self cls reg tgt) = K_bbox) \<and>
      (\<forall>pred mt bt gl c. dom (mask_head_loss self pred mt bt gl c) = K_mask) \<and>
      (\<forall>cls reg tgt. dom (mask_iou_head_loss self cls reg tgt) = K_refine))"

section \<open>A concrete detector\<close>

text \<open>
  A small detector with fixed collaborators, on which the model runs: one pyramid level,
  two proposals of which the sampler makes the first positive, single-pixel features, and a
  mask head that predicts a background channel and one foreground channel \<open>[0.5, 0.7]\<close>.
\<close>

definition demo_rcnn :: "(string \<times> cfg) list \<Rightarrow> cfg" where
  "demo_rcnn extra =
     CDict ([(''assigner'', CStr ''MaxIoUAssigner''), (''sampler'', CStr ''RandomSampler''),
             (''mask_thr_binary'', CNum (Fin (1/2)))] @ extra)"

definition demo_cfg :: "(string \<times> cfg) list \<Rightarrow> cfg" where
  "demo_cfg extra = CDict [(''rpn'', CDict []), (''rcnn'', demo_rcnn extra)]"

definition demo_bbox2roi :: "bbox_list \<Rightarrow> boxes" where
  "demo_bbox2roi bl =
     (case bl of
        BoxList bs \<Rightarrow>
          concat (map (\<lambda>(i, b). map (\<lambda>r. Fin (real i) # take 4 r) b) (enumerate 0 bs))
      | BoxTensor b \<Rightarrow> map (\<lambda>r. Fin 0 # take 4 r) b)"

definition demo_sample :: "cfg \<Rightarrow> nat \<Rightarrow> boxes \<Rightarrow> boxes \<Rightarrow> labels \<Rightarrow> tensor4 list
    \<Rightarrow> nat sampling_result" where
  "demo_sample c a p g gl feats =
     \<lparr>bboxes = p, pos_bboxes = take 1 p, neg_bboxes = drop 1 p, pos_gt_labels = take 1 gl,
      rest = a\<rparr>"

definition demo_proposals :: "boxes list" where
  "demo_proposals = [[[Fin 0, Fin 0, Fin 1, Fin 1], [Fin 0, Fin 0, Fin 2, Fin 2]]]"

definition demo :: "(nat, nat) detector" where
  "demo = \<lparr>
     with_rpn = True, with_bbox = True, with_mask = True, with_shared_head = False,
     share_roi_extractor = False,
     train_cfg = demo_cfg [(''refine_sample'', CStr ''resample'')],
     test_cfg = demo_cfg [(''refine_sample'', CStr ''interpolate'')],
     extract_feat = (\<lambda>img. [img]),
     rpn_head = (\<lambda>x. 0),
     rpn_head_loss = (\<lambda>outs gt meta c ign. [''loss_rpn_cls'' \<mapsto> 1, ''loss_rpn_bbox'' \<mapsto> 1]),
     rpn_head_get_bboxes = (\<lambda>outs meta c. demo_proposals),
     build_assigner = (\<lambda>c p g gi gl. 0),
     build_sampler = demo_sample,
     bbox2roi = demo_bbox2roi,
     bbox_roi_extractor = (\<lambda>feats rois. map (\<lambda>r. [[[Fin 1]]]) rois),
     bbox_roi_extractor_num_inputs = 1,
     mask_roi_extractor = (\<lambda>feats rois. map (\<lambda>r. [[[Fin 2]]]) rois),
     mask_roi_extractor_num_inputs = 1,
     mask_roi_extractor_featmap_strides = [4],
     shared_head = (\<lambda>t. t),
     bbox_head = (\<lambda>t. (map (\<lambda>r. [Fin (9/10)]) t, map (\<lambda>r. [Fin 0, Fin 0, Fin 0, Fin 0]) t)),
     bbox_head_get_target = (\<lambda>srs gt gl c. 0),
     bbox_head_loss = (\<lambda>cls reg tgt. [''loss_cls'' \<mapsto> 1, ''loss_bbox'' \<mapsto> 1]),
     bbox_head_get_det_bboxes = (\<lambda>rois cls reg shape scale rescale c.
        (map (\<lambda>r. drop 1 r @ [Fin (9/10)]) rois, map (\<lambda>r. 1) rois)),
     bbox_head_num_classes = 3,
     mask_head = (\<lambda>t. map (\<lambda>r. [[[Fin (1/10), Fin (1/10)]], [[Fin (1/2), Fin (7/10)]]]) t),
     mask_head_get_target = (\<lambda>srs gm c. (0, 0)),
     mask_head_loss = (\<lambda>pred mt bt gl c. [''loss_mask'' \<mapsto> 1]),
     mask_head_get_seg_masks = (\<lambda>pred b l c shape scale rescale. [[0], []]),
     mask_head_num_classes = 3,
     mask_iou_head = (\<lambda>f m. (map (\<lambda>r. [Fin (9/10)]) f, map (\<lambda>r. [Fin 0, Fin 0, Fin 0, Fin 0]) f)),
     mask_iou_head_get_target = (\<lambda>srs gt gl c. 0),
     mask_iou_head_loss = (\<lambda>cls reg tgt. [''loss_refine'' \<mapsto> 1]),
     F_interpolate = (\<lambda>t size. map (\<lambda>r. [[[Fin 3]]]) t),
     max_pool = (\<lambda>t k. t),
     mul_scalar = (\<lambda>b s. b),
     simple_test_rpn = (\<lambda>x meta c. demo_proposals),
     simple_test_bboxes = (\<lambda>x meta ps c rescale.
        ([[Fin 0, Fin 0, Fin 1, Fin 1, Fin (9/10)]], [1])),
     bbox2result = (\<lambda>b l n. length b)
   \<rparr>"

definition demo_img :: tensor4 where
  "demo_img = [[[[Fin 0]]]]"

definition demo_meta :: "img_meta list" where
  "demo_meta = [\<lparr>ori_shape = [1, 1, 3], img_shape = [1, 1, 3], scale_factor = Fin 1\<rparr>]"

definition demo_gt_bboxes :: "boxes list" where
  "demo_gt_bboxes = [[[Fin 0, Fin 0, Fin 1, Fin 1]]]"

definition demo_gt_labels :: "labels list" where
  "demo_gt_labels = [[1]]"

text \<open>The calls of a training step of \<open>demo\<close> up to and including the mask loss.\<close>

definition demo_calls_to_mask_loss :: "call list" where
  "demo_calls_to_mask_loss =
     [ExtractFeat [[[[Fin 0]]]], RpnHead [[[[[Fin 0]]]]], RpnLoss, RpnGetBboxes (CDict []),
      Assign 0, Sample 0,
      BboxRoiExtractor [[[[[Fin 0]]]]]
        [[Fin 0, Fin 0, Fin 0, Fin 1, Fin 1], [Fin 0, Fin 0, Fin 0, Fin 2, Fin 2]],
      BboxHead [[[[Fin 1]]], [[[Fin 1]]]], BboxGetTarget, BboxLoss,
      MaskRoiExtractor [[[[[Fin 0]]]]] [[Fin 0, Fin 0, Fin 0, Fin 1, Fin 1]],
      MaskHead [[[[Fin 2]]]], MaskGetTarget,
      MaskLoss (demo_rcnn [(''refine_sample'', CStr ''interpolate'')])]"

section \<open>Properties\<close>

subsection \<open>Binarization\<close>


lemma all4_map4: "(\<And>v. p (f v)) \<Longrightarrow> all4 p (map4 f m)"
  unfolding map4_def all4_def list_all_iff by simp

lemma binary4_to_float: "binary4 (to_float b)"
  unfolding binary4_def to_float_def
  by (rule all4_map4) (simp add: is_hard_def bool_to_float_def)










subsection \<open>Rules for computations\<close>

lemma triple_ret: "Q v \<Longrightarrow> triple I (ret v) Q"
  by (simp add: triple_def ret_def)

lemma triple_lift: "(\<And>v. r = Inr v \<Longrightarrow> Q v) \<Longrightarrow> triple I (lift r) Q"
  by (simp add: triple_def lift_def)

lemma triple_invoke: "(\<And>tr. I tr \<Longrightarrow> I (tr @ [c])) \<Longrightarrow> Q v \<Longrightarrow> triple I (invoke c v) Q"
  by (simp add: triple_def invoke_def)

lemma triple_bind:
  assumes "triple I m R" and "\<And>v. R v \<Longrightarrow> triple I (f v) Q"
  shows "triple I (bind m f) Q"
  unfolding triple_def
proof (intro allI impI)
  fix tr assume i: "I tr"
  obtain r tr1 where m: "m tr = (r, tr1)" by (cases "m tr")
  from assms(1) i m have i1: "I tr1" and r: "\<And>v. r = Inr v \<Longrightarrow> R v"
    by (auto simp: triple_def)
  show "I (snd (bind m f tr)) \<and> (\<forall>v. fst (bind m f tr) = Inr v \<longrightarrow> Q v)"
  proof (cases r)
    case (Inl e)
    with m i1 show ?thesis by (simp add: bind_def)
  next
    case (Inr u)
    from r[OF Inr] assms(2) have "triple I (f u) Q" by blast
    with i1 have "I (snd (f u tr1)) \<and> (\<forall>v. fst (f u tr1) = Inr v \<longrightarrow> Q v)"
      by (simp add: triple_def)
    with m Inr show ?thesis by (simp add: bind_def)
  qed
qed

lemma triple_bind_ret: "triple I (f v) Q \<Longrightarrow> triple I (bind (ret v) f) Q"
  by (rule triple_bind[where R = "\<lambda>u. u = v"]) (auto intro: triple_ret)

lemma triple_bind_lift:
  "(\<And>v. r = Inr v \<Longrightarrow> triple I (f v) Q) \<Longrightarrow> triple I (bind (lift r) f) Q"
  by (rule triple_bind[where R = "\<lambda>u. r = Inr u"]) (auto intro: triple_lift)

lemma triple_bind_invoke:
  "(\<And>tr. I tr \<Longrightarrow> I (tr @ [c])) \<Longrightarrow> triple I (f v) Q \<Longrightarrow> triple I (bind (invoke c v) f) Q"
  by (rule triple_bind[where R = "\<lambda>u. u = v"]) (auto intro: triple_invoke)

lemma triple_bind_if:
  "(b \<Longrightarrow> triple I (bind m f) Q) \<Longrightarrow> (\<not> b \<Longrightarrow> triple I (bind n f) Q)
   \<Longrightarrow> triple I (bind (if b then m else n) f) Q"
  by simp

lemma triple_if:
  "(b \<Longrightarrow> triple I m Q) \<Longrightarrow> (\<not> b \<Longrightarrow> triple I n Q) \<Longrightarrow> triple I (if b then m else n) Q"
  by simp

lemma triple_case_prod:
  "(\<And>a b. p = (a, b) \<Longrightarrow> triple I (f a b) Q) \<Longrightarrow> triple I (case p of (a, b) \<Rightarrow> f a b) Q"
  by (cases p) simp

lemma triple_case_option:
  "(v = None \<Longrightarrow> triple I m Q) \<Longrightarrow> (\<And>a. v = Some a \<Longrightarrow> triple I (f a) Q)
   \<Longrightarrow> triple I (case v of None \<Rightarrow> m | Some a \<Rightarrow> f a) Q"
  by (cases v) simp_all

lemma bind_assoc: "bind (bind m f) g = bind m (\<lambda>x. bind (f x) g)"
  by (rule ext) (simp add: bind_def split: prod.splits sum.splits)

lemma triple_bind_assoc:
  "triple I (bind m (\<lambda>x. bind (f x) g)) Q \<Longrightarrow> triple I (bind (bind m f) g) Q"
  by (simp add: bind_assoc)

lemma triple_bind_case_option:
  "(v = None \<Longrightarrow> triple I (bind m g) Q) \<Longrightarrow> (\<And>a. v = Some a \<Longrightarrow> triple I (bind (f a) g) Q)
   \<Longrightarrow> triple I (bind (case v of None \<Rightarrow> m | Some a \<Rightarrow> f a) g) Q"
  by (cases v) simp_all

lemma triple_weaken: "triple I m Q \<Longrightarrow> (\<And>v. Q v \<Longrightarrow> Q' v) \<Longrightarrow> triple I m Q'"
  by (simp add: triple_def)

lemma triple_run:
  "triple I m Q \<Longrightarrow> I tr \<Longrightarrow> m tr = (r, tr') \<Longrightarrow> I tr' \<and> (\<forall>v. r = Inr v \<longrightarrow> Q v)"
  by (auto simp: triple_def)

lemmas triple_steps = triple_bind_ret triple_bind_lift triple_bind_invoke triple_bind_if
  triple_bind_case_option triple_bind_assoc
  triple_ret triple_lift triple_invoke triple_if triple_case_prod triple_case_option

lemmas run_defs = forward_train_def rpn_stage_def sample_stage_def bbox_stage_def mask_stage_def
  pool_mask_feats_def refine_feats_train_def refine_stage_def simple_test_def simple_test_mask_def
  refine_feats_test_def refine_test_bboxes_def
  bind_def ret_def lift_def invoke_def index_def subscript_def read_local_def torch_cat_def
  mask_select_def F_max_pool2d_def
  demo_def demo_cfg_def demo_rcnn_def demo_bbox2roi_def demo_sample_def demo_proposals_def
  demo_img_def demo_meta_def demo_gt_bboxes_def demo_gt_labels_def demo_calls_to_mask_loss_def
  to_float_def tensor_ge_def tensor_gt_def map4_def drop_bg_def bool_to_float_def Let_def


subsection \<open>Stages that never call the refinement head\<close>

text \<open>
  An invariant of the trace that is kept by every call other than one of the refinement
  head is kept by the stages below, which do not call it.
\<close>

lemma rpn_stage_calls:
  assumes "\<And>tr c. I tr \<Longrightarrow> \<not> is_refine_head c \<Longrightarrow> I (tr @ [c])"
  shows "triple I (rpn_stage self x img_meta gt_bboxes gt_bboxes_ignore proposals losses)
           (\<lambda>_. True)"
  unfolding rpn_stage_def
  by (intro triple_steps) (simp_all add: assms is_refine_head_def)

lemma sample_loop_calls:
  assumes "\<And>tr c. I tr \<Longrightarrow> \<not> is_refine_head c \<Longrightarrow> I (tr @ [c])"
  shows "triple I (sample_loop a s x pl gb gi gl imgs acc) (\<lambda>_. True)"
  by (induction imgs arbitrary: acc) (auto intro!: triple_steps simp: assms is_refine_head_def)

lemma sample_stage_calls:
  assumes "\<And>tr c. I tr \<Longrightarrow> \<not> is_refine_head c \<Longrightarrow> I (tr @ [c])"
  shows "triple I (sample_stage self img x pl gb gl gi) (\<lambda>_. True)"
  unfolding sample_stage_def Let_def
  by (intro triple_steps triple_bind[OF sample_loop_calls[where I = I, OF assms]]) simp_all

lemma bbox_stage_calls:
  assumes "\<And>tr c. I tr \<Longrightarrow> \<not> is_refine_head c \<Longrightarrow> I (tr @ [c])"
  shows "triple I (bbox_stage self x srs gb gl losses) (\<lambda>_. True)"
  unfolding bbox_stage_def Let_def
  by (intro triple_steps) (simp_all add: assms is_refine_head_def)

lemma pool_mask_feats_calls:
  assumes "\<And>tr c. I tr \<Longrightarrow> \<not> is_refine_head c \<Longrightarrow> I (tr @ [c])"
  shows "triple I (pool_mask_feats self x srs bf) (\<lambda>_. True)"
  unfolding pool_mask_feats_def Let_def
  by (intro triple_steps) (simp_all add: assms is_refine_head_def)

lemma refine_feats_train_calls:
  assumes "\<And>tr c. I tr \<Longrightarrow> \<not> is_refine_head c \<Longrightarrow> I (tr @ [c])"
  shows "triple I (refine_feats_train self x mf pr) (\<lambda>_. True)"
  unfolding refine_feats_train_def Let_def
  by (intro triple_steps) (simp_all add: assms is_refine_head_def)

lemma refine_feats_test_calls:
  assumes "\<And>tr c. I tr \<Longrightarrow> \<not> is_refine_head c \<Longrightarrow> I (tr @ [c])"
  shows "triple I (refine_feats_test self x rf rois) (\<lambda>_. True)"
  unfolding refine_feats_test_def Let_def
  by (intro triple_steps) (simp_all add: assms is_refine_head_def)

lemma simple_test_mask_calls:
  assumes "\<And>tr c. I tr \<Longrightarrow> \<not> is_refine_head c \<Longrightarrow> I (tr @ [c])"
  shows "triple I (simple_test_mask self x img_meta db dl rescale) (\<lambda>_. True)"
  unfolding simple_test_mask_def Let_def
  by (intro triple_steps) (simp_all add: assms is_refine_head_def)

text \<open>
  With the refinement sub-step, an invariant has to be kept by the one call of the
  refinement head as well, whose mask is a thresholded one.
\<close>

lemma refine_stage_calls:
  assumes "\<And>tr c. I tr \<Longrightarrow> \<not> is_refine_head c \<Longrightarrow> I (tr @ [c])"
    and "\<And>tr f thr. I tr \<Longrightarrow> I (tr @ [RefineHead f (to_float (tensor_ge (drop_bg mp) thr))])"
  shows "triple I (refine_stage self x srs mf pr mp gb gl losses) (\<lambda>_. True)"
  unfolding refine_stage_def Let_def
  by (intro triple_steps triple_bind[OF refine_feats_train_calls[where I = I, OF assms(1)]])
     (simp_all add: assms is_refine_head_def)

lemma mask_stage_calls:
  assumes "\<And>tr c. I tr \<Longrightarrow> \<not> is_refine_head c \<Longrightarrow> I (tr @ [c])"
    and "\<And>tr f mp thr. I tr \<Longrightarrow> I (tr @ [RefineHead f (to_float (tensor_ge (drop_bg mp) thr))])"
  shows "triple I (mask_stage self x srs bf gb gl gm losses) (\<lambda>_. True)"
  unfolding mask_stage_def Let_def
  by (intro triple_steps triple_bind[OF pool_mask_feats_calls[where I = I, OF assms(1)]]
        refine_stage_calls[where I = I, OF assms(1)])
     (simp_all add: assms is_refine_head_def)

lemma forward_train_calls:
  assumes "\<And>tr c. I tr \<Longrightarrow> \<not> is_refine_head c \<Longrightarrow> I (tr @ [c])"
    and "\<And>tr f mp thr. with_mask self \<Longrightarrow> I tr
           \<Longrightarrow> I (tr @ [RefineHead f (to_float (tensor_ge (drop_bg mp) thr))])"
  shows "triple I (forward_train self img img_meta gb gl gi gm ps) (\<lambda>_. True)"
proof -
  have "triple I (mask_stage self x srs bf gb gl gm losses) (\<lambda>_. True)"
    for x srs bf losses
  proof (cases "with_mask self")
    case True
    with assms show ?thesis by (intro mask_stage_calls) simp_all
  next
    case False
    then show ?thesis by (simp add: mask_stage_def triple_ret)
  qed
  then show ?thesis
    unfolding forward_train_def
    by (intro triple_steps triple_bind[OF rpn_stage_calls[where I = I, OF assms(1)]]
          triple_bind[OF sample_stage_calls[where I = I, OF assms(1)]]
          triple_bind[OF bbox_stage_calls[where I = I, OF assms(1)]])
       (simp_all add: assms(1) is_refine_head_def)
qed

lemma refine_test_bboxes_calls:
  assumes "\<And>tr c. I tr \<Longrightarrow> \<not> is_refine_head c \<Longrightarrow> I (tr @ [c])"
    and "\<And>tr f mp thr. I tr \<Longrightarrow> I (tr @ [RefineHead f (to_float (tensor_gt (drop_bg mp) thr))])"
  shows "triple I (refine_test_bboxes self x img_meta ps c rescale) (\<lambda>_. True)"
  unfolding refine_test_bboxes_def Let_def
  by (intro triple_steps triple_bind[OF refine_feats_test_calls[where I = I, OF assms(1)]])
     (simp_all add: assms is_refine_head_def)

lemma simple_test_calls:
  assumes "\<And>tr c. I tr \<Longrightarrow> \<not> is_refine_head c \<Longrightarrow> I (tr @ [c])"
    and "\<And>tr f mp thr. I tr \<Longrightarrow> I (tr @ [RefineHead f (to_float (tensor_gt (drop_bg mp) thr))])"
  shows "triple I (simple_test self img img_meta ps rescale) (\<lambda>_. True)"
  unfolding simple_test_def
  by (intro triple_steps triple_bind[OF refine_test_bboxes_calls[where I = I, OF assms]]
        triple_bind[OF simple_test_mask_calls[where I = I, OF assms(1)]])
     (simp_all add: assms(1) is_refine_head_def)


subsection \<open>The refinement head sees hard masks only\<close>

lemma hard_unless_refine_head:
  "list_all hard_refine_call tr \<Longrightarrow> \<not> is_refine_head c \<Longrightarrow> list_all hard_refine_call (tr @ [c])"
  by (cases c) (simp_all add: is_refine_head_def hard_refine_call_def)

lemma hard_refine_head:
  "list_all hard_refine_call tr \<Longrightarrow> list_all hard_refine_call (tr @ [RefineHead f (to_float b)])"
  by (simp add: hard_refine_call_def binary4_to_float)

text \<open>
  Claim C4. In the training step and on every inference path, each call of the refinement
  head is given a mask whose entries are 0.0 and 1.0 only, whatever the configuration, the
  inputs and the collaborators are, and whether the run returns or raises.
\<close>

theorem refine_head_mask_is_hard:
  "list_all hard_refine_call
     (snd (forward_train self img img_meta gt_bboxes gt_labels gt_bboxes_ignore gt_masks
             proposals [])) \<and>
   list_all hard_refine_call
     (snd (refine_test_bboxes self x img_meta candidates rcnn_test_cfg rescale [])) \<and>
   list_all hard_refine_call
     (snd (simple_test_mask self x img_meta det_bboxes det_labels rescale [])) \<and>
   list_all hard_refine_call (snd (simple_test self img img_meta proposals rescale []))"
  using forward_train_calls [where I = "list_all hard_refine_call", OF hard_unless_refine_head hard_refine_head,
          of self img img_meta gt_bboxes gt_labels gt_bboxes_ignore gt_masks proposals]
        refine_test_bboxes_calls [where I = "list_all hard_refine_call", OF hard_unless_refine_head hard_refine_head,
          of self x img_meta candidates rcnn_test_cfg rescale]
        simple_test_mask_calls [where I = "list_all hard_refine_call", OF hard_unless_refine_head,
          of self x img_meta det_bboxes det_labels rescale]
        simple_test_calls [where I = "list_all hard_refine_call", OF hard_unless_refine_head hard_refine_head,
          of self img img_meta proposals rescale]
  by (simp add: triple_def)

theorem refine_head_mask_is_hard_witness:
  "snd (forward_train demo demo_img demo_meta demo_gt_bboxes demo_gt_labels None None None [])
     = demo_calls_to_mask_loss @
       [BboxRoiExtractor [[[[[Fin 0]]]]] [[Fin 0, Fin 0, Fin 0, Fin 1, Fin 1]],
        RefineHead [[[[Fin 1]]]] [[[[Fin 1, Fin 1]]]],
        RefineGetTarget [[[Fin 0, Fin 0, Fin 1, Fin 1]]], RefineLoss] \<and>
   list_all hard_refine_call
     (snd (forward_train demo demo_img demo_meta demo_gt_bboxes demo_gt_labels None None None []))"
  using refine_head_mask_is_hard
          [of demo demo_img demo_meta demo_gt_bboxes demo_gt_labels None None None]
  by (simp add: run_defs)


subsection \<open>The keys of the loss mapping\<close>

lemma rpn_stage_keys:
  assumes "fixed_loss_keys self K_rpn K_bbox K_mask K_refine"
  shows "triple (\<lambda>_. True) (rpn_stage self x img_meta gt_bboxes gt_bboxes_ignore proposals losses)
           (\<lambda>(losses', pl). dom losses' = dom losses \<union> (if with_rpn self then K_rpn else {}))"
  using assms unfolding rpn_stage_def
  by (intro triple_steps) (simp_all add: fixed_loss_keys_def Un_commute)

lemma bbox_stage_keys:
  assumes "fixed_loss_keys self K_rpn K_bbox K_mask K_refine"
  shows "triple (\<lambda>_. True) (bbox_stage self x srs gt_bboxes gt_labels losses)
           (\<lambda>(losses', bf). dom losses' = dom losses \<union> (if with_bbox self then K_bbox else {}))"
  using assms unfolding bbox_stage_def Let_def
  by (intro triple_steps) (simp_all add: fixed_loss_keys_def Un_commute)

lemma refine_stage_keys:
  assumes "fixed_loss_keys self K_rpn K_bbox K_mask K_refine"
  shows "triple (\<lambda>_. True) (refine_stage self x srs mf pr mp gt_bboxes gt_labels losses)
           (\<lambda>losses'. dom losses' = dom losses \<union> K_refine)"
  using assms unfolding refine_stage_def Let_def
  by (intro triple_steps triple_bind[where R = "\<lambda>_. True"])
     (simp_all add: fixed_loss_keys_def triple_def Un_commute)

lemma mask_stage_keys:
  assumes "fixed_loss_keys self K_rpn K_bbox K_mask K_refine"
  shows "triple (\<lambda>_. True) (mask_stage self x srs bf gt_bboxes gt_labels gt_masks losses)
           (\<lambda>losses'. dom losses' =
              dom losses \<union> (if with_mask self then K_mask \<union> K_refine else {}))"
proof (cases "with_mask self")
  case False
  then show ?thesis by (simp add: mask_stage_def triple_ret)
next
  case True
  have "triple (\<lambda>_. True)
          (refine_stage self x srs' mf pr mp gt_bboxes gt_labels
             (losses ++ mask_head_loss self mp mt bt pl c))
          (\<lambda>losses'. dom losses' = dom losses \<union> (K_mask \<union> K_refine))" for srs' mf pr mp mt bt pl c
    using assms
    by (intro triple_weaken[OF refine_stage_keys[OF assms]]) (auto simp: fixed_loss_keys_def)
  with True show ?thesis
    unfolding mask_stage_def
    by (intro triple_steps triple_bind[where R = "\<lambda>_. True"]) (simp_all add: triple_def)
qed

lemma forward_train_keys:
  assumes "fixed_loss_keys self K_rpn K_bbox K_mask K_refine"
  shows "triple (\<lambda>_. True)
           (forward_train self img img_meta gt_bboxes gt_labels gt_bboxes_ignore gt_masks proposals)
           (\<lambda>losses. dom losses =
              (if with_rpn self then K_rpn else {}) \<union> (if with_bbox self then K_bbox else {}) \<union>
              (if with_mask self then K_mask \<union> K_refine else {}))"
  unfolding forward_train_def
  apply (rule triple_bind_invoke, simp)
  apply (rule triple_bind[OF rpn_stage_keys[OF assms]])
  apply (rule triple_case_prod)
  apply (rule triple_bind[where R = "\<lambda>_. True"], simp add: triple_def)
  apply (rule triple_bind[OF bbox_stage_keys[OF assms]])
  apply (rule triple_case_prod)
  apply (rule triple_weaken[OF mask_stage_keys[OF assms]])
  apply auto
  done

text \<open>
  Claim C6. When every stage's loss function names a fixed set of losses, the mapping that
  a training step returns has exactly the keys of the enabled stages: those of the RPN,
  of the box head, and of the mask head together with the refinement head. Without a mask
  head the refinement head is not called, whether the step returns or raises.
\<close>

theorem loss_keys_of_enabled_stages:
  assumes "fixed_loss_keys self K_rpn K_bbox K_mask K_refine"
    and "forward_train self img img_meta gt_bboxes gt_labels gt_bboxes_ignore gt_masks proposals []
           = (r, tr)"
  shows "(\<forall>losses. r = Inr losses \<longrightarrow>
            dom losses =
              (if with_rpn self then K_rpn else {}) \<union> (if with_bbox self then K_bbox else {}) \<union>
              (if with_mask self then K_mask \<union> K_refine else {})) \<and>
         (\<not> with_mask self \<longrightarrow> list_all (\<lambda>c. \<not> is_refine_head c) tr)"
proof
  from triple_run [OF forward_train_keys [OF assms(1)] _ assms(2)]
  show "\<forall>losses. r = Inr losses \<longrightarrow>
          dom losses =
            (if with_rpn self then K_rpn else {}) \<union> (if with_bbox self then K_bbox else {}) \<union>
            (if with_mask self then K_mask \<union> K_refine else {})"
    by simp
next
  show "\<not> with_mask self \<longrightarrow> list_all (\<lambda>c. \<not> is_refine_head c) tr"
  proof
    assume nm: "\<not> with_mask self"
    have "triple (list_all (\<lambda>c. \<not> is_refine_head c))
            (forward_train self img img_meta gt_bboxes gt_labels gt_bboxes_ignore gt_masks
               proposals) (\<lambda>_. True)"
      using nm by (intro forward_train_calls) simp_all
    from triple_run [OF this _ assms(2)] show "list_all (\<lambda>c. \<not> is_refine_head c) tr"
      by simp
  qed
qed

theorem loss_keys_of_enabled_stages_witness:
  "fixed_loss_keys demo {''loss_rpn_cls'', ''loss_rpn_bbox''} {''loss_cls'', ''loss_bbox''}
     {''loss_mask''} {''loss_refine''} \<and>
   (\<exists>losses tr.
      forward_train demo demo_img demo_meta demo_gt_bboxes demo_gt_labels None None None []
        = (Inr losses, tr) \<and>
      dom losses = {''loss_rpn_cls'', ''loss_rpn_bbox'', ''loss_cls'', ''loss_bbox'',
                    ''loss_mask'', ''loss_refine''}) \<and>
   (\<exists>losses tr.
      forward_train (demo\<lparr>with_mask := False\<rparr>) demo_img demo_meta demo_gt_bboxes demo_gt_labels
        None None None [] = (Inr losses, tr) \<and>
      dom losses = {''loss_rpn_cls'', ''loss_rpn_bbox'', ''loss_cls'', ''loss_bbox''} \<and>
      list_all (\<lambda>c. \<not> is_refine_head c) tr)"
proof -
  let ?K1 = "{''loss_rpn_cls'', ''loss_rpn_bbox''}" and ?K2 = "{''loss_cls'', ''loss_bbox''}"
  let ?nm = "demo\<lparr>with_mask := False\<rparr>"
  have "\<exists>l tr. forward_train demo demo_img demo_meta demo_gt_bboxes demo_gt_labels
      None None None [] = (Inr l, tr)"
    by (simp add: run_defs)
  then obtain l tr where run: "forward_train demo demo_img demo_meta demo_gt_bboxes
      demo_gt_labels None None None [] = (Inr l, tr)" by blast
  have "\<exists>l tr. forward_train ?nm demo_img demo_meta demo_gt_bboxes demo_gt_labels
      None None None [] = (Inr l, tr)"
    by (simp add: run_defs)
  then obtain l' tr' where run': "forward_train ?nm demo_img demo_meta demo_gt_bboxes
      demo_gt_labels None None None [] = (Inr l', tr')" by blast
  have k: "fixed_loss_keys demo ?K1 ?K2 {''loss_mask''} {''loss_refine''}"
    by (simp add: fixed_loss_keys_def demo_def) blast
  have k': "fixed_loss_keys ?nm ?K1 ?K2 {''loss_mask''} {''loss_refine''}"
    by (simp add: fixed_loss_keys_def demo_def) blast
  have flags: "with_rpn demo" "with_bbox demo" "with_mask demo"
    "with_rpn ?nm" "with_bbox ?nm" "\<not> with_mask ?nm"
    by (simp_all add: demo_def)
  from loss_keys_of_enabled_stages [OF k run] flags
  have d: "dom l = {''loss_rpn_cls'', ''loss_rpn_bbox'', ''loss_cls'', ''loss_bbox'',
                    ''loss_mask'', ''loss_refine''}"
    by auto
  from loss_keys_of_enabled_stages [OF k' run'] flags
  have d': "dom l' = {''loss_rpn_cls'', ''loss_rpn_bbox'', ''loss_cls'', ''loss_bbox''}"
    and n': "list_all (\<lambda>c. \<not> is_refine_head c) tr'"
    by auto
  from k run d run' d' n' show ?thesis by blast
qed


subsection \<open>Runs that cannot return\<close>

lemma run_bind_invoke:
  assumes "triple I (f v) Q" and "I (tr @ [c])" and "bind (invoke c v) f tr = (r, tr')"
  shows "I tr' \<and> (\<forall>u. r = Inr u \<longrightarrow> Q u)"
  using triple_run [OF assms(1,2), of r tr'] assms(3)
  by (simp add: bind_def invoke_def)

text \<open>
  When the choice of the refinement features cannot return, on what the pooling of the
  mask features leaves in \<^verbatim>\<open>pos_rois\<close>, then neither can the mask stage, nor the training
  step; the refinement head is not reached.
\<close>

lemma mask_stage_never:
  assumes "\<And>tr c. I tr \<Longrightarrow> \<not> is_refine_head c \<Longrightarrow> I (tr @ [c])"
    and "with_mask self"
    and "\<And>x srs bf. triple I (pool_mask_feats self x srs bf) (\<lambda>(mf, pr). R pr)"
    and "\<And>x mf pr. R pr \<Longrightarrow> triple I (refine_feats_train self x mf pr) (\<lambda>_. False)"
  shows "triple I (mask_stage self x srs bf gb gl gm losses) (\<lambda>_. False)"
  using assms(2) unfolding mask_stage_def refine_stage_def Let_def
  by (intro triple_steps triple_bind[OF assms(3)] triple_bind[OF assms(4)])
     (simp_all add: assms(1) is_refine_head_def)

lemma forward_train_never:
  assumes "\<And>tr c. I tr \<Longrightarrow> \<not> is_refine_head c \<Longrightarrow> I (tr @ [c])"
    and "I [ExtractFeat img]"
    and "\<And>x srs bf losses.
           triple I (mask_stage self x srs bf gt_bboxes gt_labels gt_masks losses) (\<lambda>_. False)"
    and "forward_train self img img_meta gt_bboxes gt_labels gt_bboxes_ignore gt_masks proposals []
           = (r, tr)"
  shows "(\<exists>err. r = Inl err) \<and> I tr"
proof -
  have "I tr \<and> (\<forall>u. r = Inr u \<longrightarrow> False)"
  proof (rule run_bind_invoke [OF _ _ assms(4)[unfolded forward_train_def]])
    show "I ([] @ [ExtractFeat img])" using assms(2) by simp
    show "triple I
       (bind (rpn_stage self (extract_feat self img) img_meta gt_bboxes gt_bboxes_ignore
                proposals Map.empty)
          (\<lambda>(losses, proposal_list).
             bind (sample_stage self img (extract_feat self img) proposal_list gt_bboxes
                     gt_labels gt_bboxes_ignore)
               (\<lambda>sampling_results.
                  bind (bbox_stage self (extract_feat self img) sampling_results gt_bboxes
                          gt_labels losses)
                    (\<lambda>(losses, bbox_feats).
                       mask_stage self (extract_feat self img) sampling_results bbox_feats
                         gt_bboxes gt_labels gt_masks losses))))
       (\<lambda>_. False)"
      by (intro triple_case_prod
            triple_bind[OF rpn_stage_calls[where I = I, OF assms(1)]]
            triple_bind[OF sample_stage_calls[where I = I, OF assms(1)]]
            triple_bind[OF bbox_stage_calls[where I = I, OF assms(1)]]
            assms(3))
  qed
  then show ?thesis by (cases r) auto
qed

lemma pool_mask_feats_any:
  assumes "\<And>tr c. I tr \<Longrightarrow> \<not> is_refine_head c \<Longrightarrow> I (tr @ [c])"
  shows "triple I (pool_mask_feats self x srs bf) (\<lambda>(mf, pr). True)"
  using pool_mask_feats_calls [where I = I, OF assms] by (simp add: triple_def)

lemma no_refine_head_step:
  "list_all (\<lambda>c. \<not> is_refine_head c) tr \<Longrightarrow> \<not> is_refine_head c
   \<Longrightarrow> list_all (\<lambda>c. \<not> is_refine_head c) (tr @ [c])"
  by simp


subsection \<open>A missing \<^verbatim>\<open>refine_sample\<close>\<close>

lemma refine_feats_train_missing:
  assumes "\<And>tr c. I tr \<Longrightarrow> \<not> is_refine_head c \<Longrightarrow> I (tr @ [c])"
    and "getattr (train_cfg self) ''rcnn'' = Inr rcnn"
    and "getattr rcnn ''refine_sample'' = Inl e"
  shows "triple I (refine_feats_train self x mf pr) (\<lambda>_. False)"
  using assms(2,3) unfolding refine_feats_train_def Let_def
  by (intro triple_steps) (simp_all add: assms(1) is_refine_head_def)

lemma getattr_error: "getattr c k = Inl e \<Longrightarrow> e = AttributeError k"
  by (cases c) (auto split: option.splits)

lemma refine_feats_train_missing_raises:
  assumes "getattr (train_cfg self) ''rcnn'' = Inr rcnn"
    and "getattr rcnn ''refine_sample'' = Inl e"
  shows "refine_feats_train self x mask_feats pos_rois tr
           = (Inl (AttributeError ''refine_sample''), tr)"
  using assms getattr_error [OF assms(2)]
  by (simp add: refine_feats_train_def bind_def lift_def)

text \<open>
  Claim C7, as stated: with \<^verbatim>\<open>refine_sample\<close> absent from the training configuration, the
  training step reports a configuration error before any tensor computation. On \<open>demo\<close>
  with the key removed, the error is raised after the backbone, the RPN, the box head and
  the mask head have run and their losses have been computed; and with the mask head
  disabled the same configuration raises nothing.
\<close>

theorem missing_refine_sample_counterexample:
  "getattr (demo_rcnn []) ''refine_sample'' = Inl (AttributeError ''refine_sample'') \<and>
   forward_train (demo\<lparr>train_cfg := demo_cfg []\<rparr>) demo_img demo_meta demo_gt_bboxes
     demo_gt_labels None None None []
     = (Inl (AttributeError ''refine_sample''), demo_calls_to_mask_loss) \<and>
   MaskHead [[[[Fin 2]]]] \<in> set demo_calls_to_mask_loss \<and>
   (\<exists>losses tr.
      forward_train (demo\<lparr>train_cfg := demo_cfg [], with_mask := False\<rparr>) demo_img demo_meta
        demo_gt_bboxes demo_gt_labels None None None [] = (Inr losses, tr))"
  by (simp add: run_defs)

text \<open>
  Claim C7, amended: with the mask head enabled and \<^verbatim>\<open>refine_sample\<close> absent from
  \<^verbatim>\<open>train_cfg.rcnn\<close>, the training step does not return losses: it raises, and not before
  the backbone has been called on the images, which is the first call of every run. The
  missing key itself is reported where it is read, by the choice of the refinement
  features, as an attribute error.
\<close>

theorem missing_refine_sample_raises_late:
  assumes "with_mask self"
    and "getattr (train_cfg self) ''rcnn'' = Inr rcnn"
    and "getattr rcnn ''refine_sample'' = Inl e"
    and "forward_train self img img_meta gt_bboxes gt_labels gt_bboxes_ignore gt_masks proposals []
           = (r, tr)"
  shows "(\<exists>err. r = Inl err) \<and> (\<exists>tr'. tr = ExtractFeat img # tr') \<and>
         refine_feats_train self x mask_feats pos_rois tr0
           = (Inl (AttributeError ''refine_sample''), tr0)"
proof -
  let ?I = "\<lambda>tr. \<exists>tr'. tr = ExtractFeat img # tr'"
  have step: "\<And>tr c. ?I tr \<Longrightarrow> \<not> is_refine_head c \<Longrightarrow> ?I (tr @ [c])"
    by auto
  have "(\<exists>err. r = Inl err) \<and> (\<exists>tr'. tr = ExtractFeat img # tr')"
  proof (rule forward_train_never [where I = ?I, OF step _ _ assms(4)])
    show "?I [ExtractFeat img]" by simp
    show "triple ?I (mask_stage self x srs bf gt_bboxes gt_labels gt_masks losses) (\<lambda>_. False)"
      for x srs bf losses
      by (rule mask_stage_never [where I = ?I and R = "\<lambda>_. True", OF step assms(1)
            pool_mask_feats_any [where I = ?I, OF step]
            refine_feats_train_missing [where I = ?I, OF step assms(2,3)]])
  qed
  with refine_feats_train_missing_raises [OF assms(2,3)] show ?thesis by simp
qed

theorem missing_refine_sample_raises_late_witness:
  "with_mask (demo\<lparr>train_cfg := demo_cfg []\<rparr>) \<and>
   getattr (train_cfg (demo\<lparr>train_cfg := demo_cfg []\<rparr>)) ''rcnn'' = Inr (demo_rcnn []) \<and>
   getattr (demo_rcnn []) ''refine_sample'' = Inl (AttributeError ''refine_sample'') \<and>
   (\<exists>err tr'. forward_train (demo\<lparr>train_cfg := demo_cfg []\<rparr>) demo_img demo_meta demo_gt_bboxes
      demo_gt_labels None None None [] = (Inl err, ExtractFeat demo_img # tr')) \<and>
   refine_feats_train (demo\<lparr>train_cfg := demo_cfg []\<rparr>) [demo_img] [[[[Fin 2]]]] None []
     = (Inl (AttributeError ''refine_sample''), [])"
proof -
  let ?d = "demo\<lparr>train_cfg := demo_cfg []\<rparr>"
  have a: "with_mask ?d" by (simp add: demo_def)
  have b: "getattr (train_cfg ?d) ''rcnn'' = Inr (demo_rcnn [])"
    by (simp add: demo_def demo_cfg_def)
  have c: "getattr (demo_rcnn []) ''refine_sample'' = Inl (AttributeError ''refine_sample'')"
    by (simp add: demo_rcnn_def)
  obtain r tr where run: "forward_train ?d demo_img demo_meta demo_gt_bboxes demo_gt_labels
      None None None [] = (r, tr)" by force
  from missing_refine_sample_raises_late [OF a b c run, of "[demo_img]" "[[[[Fin 2]]]]" None "[]"]
    run a b c
  show ?thesis by auto
qed


subsection \<open>The fallback of the \<^verbatim>\<open>refine_sample\<close> policy\<close>

lemma refine_feats_train_fallback:
  assumes "getattr (train_cfg self) ''rcnn'' = Inr rcnn"
    and "getattr rcnn ''refine_sample'' = Inr v"
    and "v \<noteq> CStr ''resample''" and "v \<noteq> CStr ''interpolate''"
  shows "refine_feats_train self x mask_feats pos_rois tr
           = (Inl (TypeError ''max_pool2d: kernel_size''), tr)"
  using assms
  by (simp add: refine_feats_train_def bind_def lift_def F_max_pool2d_def)

lemma refine_feats_test_fallback:
  assumes "getattr (test_cfg self) ''rcnn'' = Inr rcnn"
    and "getattr rcnn ''refine_sample'' = Inr v"
    and "v \<noteq> CStr ''resample''" and "v \<noteq> CStr ''interpolate''"
  shows "refine_feats_test self x roi_feats rois tr
           = (Inl (TypeError ''max_pool2d: kernel_size''), tr)"
  using assms
  by (simp add: refine_feats_test_def bind_def lift_def F_max_pool2d_def)

lemma triple_never_if_raises: "(\<And>tr. m tr = (Inl e, tr)) \<Longrightarrow> triple I m (\<lambda>_. False)"
  by (simp add: triple_def)

lemma refine_test_bboxes_never:
  assumes "\<And>tr c. I tr \<Longrightarrow> \<not> is_refine_head c \<Longrightarrow> I (tr @ [c])"
    and "\<And>rf rois. triple I (refine_feats_test self x rf rois) (\<lambda>_. False)"
  shows "triple I (refine_test_bboxes self x img_meta ps c rescale) (\<lambda>_. False)"
  unfolding refine_test_bboxes_def Let_def
  by (intro triple_bind_invoke triple_bind[OF assms(2)])
     (simp_all add: assms(1) is_refine_head_def)

text \<open>
  Claim C3 says that a \<^verbatim>\<open>refine_sample\<close> value other than the two policy names makes the
  refinement sub-step reduce the pooled mask features and complete. The code calls
  \<^verbatim>\<open>F.max_pool2d\<close> with the features only, without a kernel size: for every such value the
  training step (with a mask head) and the refinement pass raise instead of returning, and
  the refinement head is not called.
\<close>

theorem fallback_never_completes:
  assumes "v \<noteq> CStr ''resample''" and "v \<noteq> CStr ''interpolate''"
  shows "(with_mask self \<and> getattr (train_cfg self) ''rcnn'' = Inr rcnn \<and>
          getattr rcnn ''refine_sample'' = Inr v \<and>
          forward_train self img img_meta gt_bboxes gt_labels gt_bboxes_ignore gt_masks
            proposals [] = (r, tr)
          \<longrightarrow> (\<exists>err. r = Inl err) \<and> list_all (\<lambda>c. \<not> is_refine_head c) tr) \<and>
         (getattr (test_cfg self) ''rcnn'' = Inr rcnn' \<and>
          getattr rcnn' ''refine_sample'' = Inr v \<and>
          refine_test_bboxes self x img_meta candidates rcnn_test_cfg rescale [] = (r', tr')
          \<longrightarrow> (\<exists>err. r' = Inl err) \<and> list_all (\<lambda>c. \<not> is_refine_head c) tr')"
proof (intro conjI impI)
  let ?I = "list_all (\<lambda>c. \<not> is_refine_head c)"
  assume a: "with_mask self \<and> getattr (train_cfg self) ''rcnn'' = Inr rcnn \<and>
          getattr rcnn ''refine_sample'' = Inr v \<and>
          forward_train self img img_meta gt_bboxes gt_labels gt_bboxes_ignore gt_masks
            proposals [] = (r, tr)"
  have never: "triple ?I (refine_feats_train self x mf pr) (\<lambda>_. False)" for x mf pr
  proof (rule triple_never_if_raises)
    fix t show "refine_feats_train self x mf pr t = (Inl (TypeError ''max_pool2d: kernel_size''), t)"
      using a assms by (intro refine_feats_train_fallback [where rcnn = rcnn and v = v]) simp_all
  qed
  have "(\<exists>err. r = Inl err) \<and> ?I tr"
  proof (rule forward_train_never [where I = ?I, OF no_refine_head_step])
    show "?I [ExtractFeat img]" by (simp add: is_refine_head_def)
    show "triple ?I (mask_stage self x srs bf gt_bboxes gt_labels gt_masks losses) (\<lambda>_. False)"
      for x srs bf losses
      using a
      by (intro mask_stage_never [where I = ?I and R = "\<lambda>_. True", OF no_refine_head_step]
            pool_mask_feats_any [where I = ?I, OF no_refine_head_step] never) simp_all
    show "forward_train self img img_meta gt_bboxes gt_labels gt_bboxes_ignore gt_masks
            proposals [] = (r, tr)" using a by simp
  qed
  then show "\<exists>err. r = Inl err" and "?I tr" by simp_all
next
  let ?I = "list_all (\<lambda>c. \<not> is_refine_head c)"
  assume b: "getattr (test_cfg self) ''rcnn'' = Inr rcnn' \<and>
          getattr rcnn' ''refine_sample'' = Inr v \<and>
          refine_test_bboxes self x img_meta candidates rcnn_test_cfg rescale [] = (r', tr')"
  have never: "triple ?I (refine_feats_test self x rf rois) (\<lambda>_. False)" for rf rois
  proof (rule triple_never_if_raises)
    fix t show "refine_feats_test self x rf rois t = (Inl (TypeError ''max_pool2d: kernel_size''), t)"
      using b assms by (intro refine_feats_test_fallback [where rcnn = rcnn' and v = v]) simp_all
  qed
  have "triple ?I (refine_test_bboxes self x img_meta candidates rcnn_test_cfg rescale)
          (\<lambda>_. False)"
    by (rule refine_test_bboxes_never [where I = ?I, OF no_refine_head_step never])
  from triple_run [OF this, of "[]" r' tr'] b
  have "?I tr' \<and> (\<forall>u. r' = Inr u \<longrightarrow> False)" by simp
  then show "\<exists>err. r' = Inl err" and "?I tr'" by (cases r'; simp)+
qed

theorem fallback_never_completes_witness:
  "CStr ''pool'' \<noteq> CStr ''resample'' \<and> CStr ''pool'' \<noteq> CStr ''interpolate'' \<and>
   with_mask (demo\<lparr>train_cfg := demo_cfg [(''refine_sample'', CStr ''pool'')]\<rparr>) \<and>
   getattr (demo_cfg [(''refine_sample'', CStr ''pool'')]) ''rcnn''
     = Inr (demo_rcnn [(''refine_sample'', CStr ''pool'')]) \<and>
   getattr (demo_rcnn [(''refine_sample'', CStr ''pool'')]) ''refine_sample'' = Inr (CStr ''pool'') \<and>
   forward_train (demo\<lparr>train_cfg := demo_cfg [(''refine_sample'', CStr ''pool'')]\<rparr>) demo_img
     demo_meta demo_gt_bboxes demo_gt_labels None None None []
     = (Inl (TypeError ''max_pool2d: kernel_size''), demo_calls_to_mask_loss) \<and>
   list_all (\<lambda>c. \<not> is_refine_head c) demo_calls_to_mask_loss \<and>
   refine_test_bboxes (demo\<lparr>test_cfg := demo_cfg [(''refine_sample'', CStr ''pool'')]\<rparr>)
     [demo_img] demo_meta (BoxTensor [[Fin 0, Fin 0, Fin 1, Fin 1, Fin (9/10)]])
     (demo_rcnn [(''refine_sample'', CStr ''pool'')]) False []
     = (Inl (TypeError ''max_pool2d: kernel_size''),
        [MaskRoiExtractor [[[[[Fin 0]]]]] [[Fin 0, Fin 0, Fin 0, Fin 1, Fin 1]],
         MaskHead [[[[Fin 2]]]]])"
proof -
  let ?c = "demo_cfg [(''refine_sample'', CStr ''pool'')]"
  let ?rc = "demo_rcnn [(''refine_sample'', CStr ''pool'')]"
  let ?d = "demo\<lparr>train_cfg := ?c\<rparr>" and ?e = "demo\<lparr>test_cfg := ?c\<rparr>"
  have n: "CStr ''pool'' \<noteq> CStr ''resample''" "CStr ''pool'' \<noteq> CStr ''interpolate''"
    by simp_all
  have m: "with_mask ?d" by (simp add: demo_def)
  have g: "getattr ?c ''rcnn'' = Inr ?rc" "getattr ?rc ''refine_sample'' = Inr (CStr ''pool'')"
    by (simp_all add: demo_cfg_def demo_rcnn_def)
  have tc: "train_cfg ?d = ?c" "test_cfg ?e = ?c" by (simp_all add: demo_def)
  have run: "forward_train ?d demo_img demo_meta demo_gt_bboxes demo_gt_labels None None None []
     = (Inl (TypeError ''max_pool2d: kernel_size''), demo_calls_to_mask_loss)"
    by (simp add: run_defs)
  have run': "refine_test_bboxes ?e [demo_img] demo_meta
     (BoxTensor [[Fin 0, Fin 0, Fin 1, Fin 1, Fin (9/10)]]) ?rc False []
     = (Inl (TypeError ''max_pool2d: kernel_size''),
        [MaskRoiExtractor [[[[[Fin 0]]]]] [[Fin 0, Fin 0, Fin 0, Fin 1, Fin 1]],
         MaskHead [[[[Fin 2]]]]])"
    by (simp add: run_defs)
  from fallback_never_completes [OF n, where self = ?d and rcnn = ?rc and img = demo_img
      and img_meta = demo_meta and gt_bboxes = demo_gt_bboxes and gt_labels = demo_gt_labels
      and gt_bboxes_ignore = None and gt_masks = None and proposals = None
      and r = "Inl (TypeError ''max_pool2d: kernel_size'')" and tr = demo_calls_to_mask_loss]
    m g tc run
  have "list_all (\<lambda>c. \<not> is_refine_head c) demo_calls_to_mask_loss" by simp
  with n m g run run' show ?thesis by simp
qed


subsection \<open>The \<^verbatim>\<open>resample\<close> and \<^verbatim>\<open>interpolate\<close> policies\<close>

text \<open>
  What the two named policies do where they work: \<^verbatim>\<open>resample\<close> calls the box-RoI extractor
  on the RoIs it is given, \<^verbatim>\<open>interpolate\<close> resizes the pooled mask features to 7 by 7 and
  calls no extractor.
\<close>

lemma refine_feats_train_resample:
  assumes "getattr (train_cfg self) ''rcnn'' = Inr rcnn"
    and "getattr rcnn ''refine_sample'' = Inr (CStr ''resample'')"
  shows "refine_feats_train self x mask_feats (Some pos_rois) tr
           = (Inr (bbox_roi_extractor self (take (bbox_roi_extractor_num_inputs self) x) pos_rois),
              tr @ [BboxRoiExtractor (take (bbox_roi_extractor_num_inputs self) x) pos_rois])"
  using assms
  by (simp add: refine_feats_train_def bind_def lift_def invoke_def read_local_def Let_def)

lemma refine_feats_train_interpolate:
  assumes "getattr (train_cfg self) ''rcnn'' = Inr rcnn"
    and "getattr rcnn ''refine_sample'' = Inr (CStr ''interpolate'')"
  shows "refine_feats_train self x mask_feats pos_rois tr
           = (Inr (F_interpolate self mask_feats (7, 7)), tr @ [Interpolate mask_feats (7, 7)])"
  using assms
  by (simp add: refine_feats_train_def bind_def lift_def invoke_def)

lemma refine_feats_test_resample:
  assumes "getattr (test_cfg self) ''rcnn'' = Inr rcnn"
    and "getattr rcnn ''refine_sample'' = Inr (CStr ''resample'')"
  shows "refine_feats_test self x roi_feats rois tr
           = (Inr (bbox_roi_extractor self (take (bbox_roi_extractor_num_inputs self) x) rois),
              tr @ [BboxRoiExtractor (take (bbox_roi_extractor_num_inputs self) x) rois])"
  using assms
  by (simp add: refine_feats_test_def bind_def lift_def invoke_def Let_def)

lemma refine_feats_test_interpolate:
  assumes "getattr (test_cfg self) ''rcnn'' = Inr rcnn"
    and "getattr rcnn ''refine_sample'' = Inr (CStr ''interpolate'')"
  shows "refine_feats_test self x roi_feats rois tr
           = (Inr (F_interpolate self roi_feats (7, 7)), tr @ [Interpolate roi_feats (7, 7)])"
  using assms
  by (simp add: refine_feats_test_def bind_def lift_def invoke_def Let_def)

text \<open>With a shared RoI extractor \<^verbatim>\<open>pos_rois\<close> is never assigned, and \<^verbatim>\<open>resample\<close> reads it.\<close>

lemma pool_mask_feats_shared:
  assumes "\<And>tr c. I tr \<Longrightarrow> \<not> is_refine_head c \<Longrightarrow> I (tr @ [c])"
    and "share_roi_extractor self"
  shows "triple I (pool_mask_feats self x srs bf) (\<lambda>(mf, pr). pr = None)"
  using assms(2) unfolding pool_mask_feats_def Let_def
  by (intro triple_steps) simp_all

lemma refine_feats_train_unbound:
  assumes "getattr (train_cfg self) ''rcnn'' = Inr rcnn"
    and "getattr rcnn ''refine_sample'' = Inr (CStr ''resample'')"
  shows "refine_feats_train self x mask_feats None tr = (Inl (UnboundLocalError ''pos_rois''), tr)"
  using assms
  by (simp add: refine_feats_train_def bind_def lift_def read_local_def Let_def)

text \<open>
  Claim C2 says that under \<^verbatim>\<open>resample\<close> every training step that reaches the refinement
  sub-step obtains the refinement features from the box-RoI extractor on the positive
  boxes. When the mask head shares the RoI extractor of the box head, the step reaches the
  sub-step and raises there, on the unassigned \<^verbatim>\<open>pos_rois\<close>: it returns no losses and does
  not call the refinement head.
\<close>

theorem resample_with_shared_extractor_raises:
  assumes "with_mask self" and "share_roi_extractor self"
    and "getattr (train_cfg self) ''rcnn'' = Inr rcnn"
    and "getattr rcnn ''refine_sample'' = Inr (CStr ''resample'')"
    and "forward_train self img img_meta gt_bboxes gt_labels gt_bboxes_ignore gt_masks proposals []
           = (r, tr)"
  shows "(\<exists>err. r = Inl err) \<and> list_all (\<lambda>c. \<not> is_refine_head c) tr"
proof -
  let ?I = "list_all (\<lambda>c. \<not> is_refine_head c)"
  have never: "pr = None \<Longrightarrow> triple ?I (refine_feats_train self x mf pr) (\<lambda>_. False)" for x mf pr
    using refine_feats_train_unbound [OF assms(3,4)] by (simp add: triple_def)
  show ?thesis
  proof (rule forward_train_never [where I = ?I, OF no_refine_head_step _ _ assms(5)])
    show "?I [ExtractFeat img]" by (simp add: is_refine_head_def)
    show "triple ?I (mask_stage self x srs bf gt_bboxes gt_labels gt_masks losses) (\<lambda>_. False)"
      for x srs bf losses
      by (rule mask_stage_never [where I = ?I and R = "\<lambda>pr. pr = None",
            OF no_refine_head_step assms(1)
               pool_mask_feats_shared [where I = ?I, OF no_refine_head_step assms(2)] never])
  qed
qed

theorem resample_with_shared_extractor_raises_witness:
  "with_mask (demo\<lparr>share_roi_extractor := True\<rparr>) \<and>
   share_roi_extractor (demo\<lparr>share_roi_extractor := True\<rparr>) \<and>
   getattr (train_cfg (demo\<lparr>share_roi_extractor := True\<rparr>)) ''rcnn''
     = Inr (demo_rcnn [(''refine_sample'', CStr ''resample'')]) \<and>
   getattr (demo_rcnn [(''refine_sample'', CStr ''resample'')]) ''refine_sample''
     = Inr (CStr ''resample'') \<and>
   forward_train (demo\<lparr>share_roi_extractor := True\<rparr>) demo_img demo_meta demo_gt_bboxes
     demo_gt_labels None None None []
     = (Inl (UnboundLocalError ''pos_rois''),
        [ExtractFeat [[[[Fin 0]]]], RpnHead [[[[[Fin 0]]]]], RpnLoss, RpnGetBboxes (CDict []),
         Assign 0, Sample 0,
         BboxRoiExtractor [[[[[Fin 0]]]]]
           [[Fin 0, Fin 0, Fin 0, Fin 1, Fin 1], [Fin 0, Fin 0, Fin 0, Fin 2, Fin 2]],
         BboxHead [[[[Fin 1]]], [[[Fin 1]]]], BboxGetTarget, BboxLoss,
         MaskHead [[[[Fin 1]]]], MaskGetTarget,
         MaskLoss (demo_rcnn [(''refine_sample'', CStr ''interpolate'')])])"
proof -
  let ?d = "demo\<lparr>share_roi_extractor := True\<rparr>"
  let ?rc = "demo_rcnn [(''refine_sample'', CStr ''resample'')]"
  have a: "with_mask ?d" "share_roi_extractor ?d" by (simp_all add: demo_def)
  have g: "getattr (train_cfg ?d) ''rcnn'' = Inr ?rc"
    "getattr ?rc ''refine_sample'' = Inr (CStr ''resample'')"
    by (simp_all add: demo_def demo_cfg_def demo_rcnn_def)
  obtain r tr where run: "forward_train ?d demo_img demo_meta demo_gt_bboxes demo_gt_labels
      None None None [] = (r, tr)" by force
  from resample_with_shared_extractor_raises [OF a g run] obtain err where "r = Inl err"
    by blast
  with run a g show ?thesis
    by (simp add: run_defs)
qed


subsection \<open>The threshold of the refinement pass\<close>

lemma refine_test_bboxes_no_section:
  assumes "\<And>tr c. I tr \<Longrightarrow> \<not> is_refine_head c \<Longrightarrow> I (tr @ [c])"
    and "getattr rcnn_test_cfg ''rcnn'' = Inl e"
  shows "triple I (refine_test_bboxes self x img_meta ps rcnn_test_cfg rescale) (\<lambda>_. False)"
  using assms(2) unfolding refine_test_bboxes_def Let_def
  by (intro triple_steps triple_bind[OF refine_feats_test_calls[where I = I, OF assms(1)]])
     (simp_all add: assms(1) is_refine_head_def)

lemma simple_test_no_section:
  assumes "\<And>tr c. I tr \<Longrightarrow> \<not> is_refine_head c \<Longrightarrow> I (tr @ [c])"
    and "getattr (test_cfg self) ''rcnn'' = Inr rcnn"
    and "getattr rcnn ''rcnn'' = Inl e"
  shows "triple I (simple_test self img img_meta proposals rescale) (\<lambda>_. False)"
proof -
  have never: "getattr (test_cfg self) ''rcnn'' = Inr c
      \<Longrightarrow> triple I (refine_test_bboxes self x img_meta ps c rescale) R" for c x ps R
    using assms(2,3)
    by (intro triple_weaken [OF refine_test_bboxes_no_section [where I = I, OF assms(1)]])
       simp_all
  show ?thesis
    unfolding simple_test_def
    by (intro triple_steps triple_bind [OF never]) (simp_all add: assms(1) is_refine_head_def)
qed

text \<open>
  Claim C1 has the refinement pass binarize the mask prediction at
  \<^verbatim>\<open>test_cfg.rcnn.mask_thr_binary\<close> and hand the hard mask to the refinement head.
  \<^verbatim>\<open>simple_test\<close> passes \<^verbatim>\<open>test_cfg.rcnn\<close> as \<^verbatim>\<open>rcnn_test_cfg\<close>, and the pass reads
  \<^verbatim>\<open>rcnn_test_cfg.rcnn.mask_thr_binary\<close>, one section further down. Whatever
  \<^verbatim>\<open>test_cfg.rcnn.mask_thr_binary\<close> is, when \<^verbatim>\<open>test_cfg.rcnn\<close> has no section \<^verbatim>\<open>rcnn\<close> of its
  own, \<^verbatim>\<open>simple_test\<close> raises and the refinement head is not called.
\<close>

theorem test_threshold_is_read_one_section_down:
  assumes "getattr (test_cfg self) ''rcnn'' = Inr rcnn"
    and "getattr rcnn ''rcnn'' = Inl e"
    and "simple_test self img img_meta proposals rescale [] = (r, tr)"
  shows "(\<exists>err. r = Inl err) \<and> list_all (\<lambda>c. \<not> is_refine_head c) tr"
proof -
  let ?I = "list_all (\<lambda>c. \<not> is_refine_head c)"
  from triple_run [OF simple_test_no_section [where I = ?I, OF no_refine_head_step assms(1,2)] _
      assms(3)]
  have "?I tr \<and> (\<forall>u. r = Inr u \<longrightarrow> False)" by simp
  then show ?thesis by (cases r) auto
qed

theorem test_threshold_is_read_one_section_down_witness:
  "getattr (test_cfg demo) ''rcnn'' = Inr (demo_rcnn [(''refine_sample'', CStr ''interpolate'')]) \<and>
   getattr (demo_rcnn [(''refine_sample'', CStr ''interpolate'')]) ''mask_thr_binary''
     = Inr (CNum (Fin (1/2))) \<and>
   getattr (demo_rcnn [(''refine_sample'', CStr ''interpolate'')]) ''rcnn''
     = Inl (AttributeError ''rcnn'') \<and>
   simple_test demo demo_img demo_meta None False []
     = (Inl (AttributeError ''rcnn''),
        [ExtractFeat [[[[Fin 0]]]], SimpleTestRpn,
         SimpleTestBboxes (demo_rcnn [(''refine_sample'', CStr ''interpolate'')]),
         MaskRoiExtractor [[[[[Fin 0]]]]] [[Fin 0, Fin 0, Fin 0, Fin 1, Fin 1]],
         MaskHead [[[[Fin 2]]]], Interpolate [[[[Fin 2]]]] (7, 7)])"
proof -
  let ?rc = "demo_rcnn [(''refine_sample'', CStr ''interpolate'')]"
  have g: "getattr (test_cfg demo) ''rcnn'' = Inr ?rc"
    "getattr ?rc ''rcnn'' = Inl (AttributeError ''rcnn'')"
    "getattr ?rc ''mask_thr_binary'' = Inr (CNum (Fin (1/2)))"
    by (simp_all add: demo_def demo_cfg_def demo_rcnn_def)
  obtain r tr where run: "simple_test demo demo_img demo_meta None False [] = (r, tr)" by force
  from test_threshold_is_read_one_section_down [OF g(1,2) run] obtain err where "r = Inl err"
    by blast
  with run g show ?thesis
    by (simp add: run_defs)
qed

text \<open>
  When \<^verbatim>\<open>test_cfg.rcnn\<close> does have a section \<^verbatim>\<open>rcnn\<close>, its threshold is the one applied: with
  0.5 configured at \<^verbatim>\<open>test_cfg.rcnn.mask_thr_binary\<close> and 0.9 one section down, the
  foreground channel \<open>[0.5, 0.7]\<close> reaches the refinement head as \<open>[0, 0]\<close>.
\<close>

lemma nested_threshold_is_applied:
  "RefineHead [[[[Fin 3]]]] [[[[Fin 0, Fin 0]]]]
     \<in> set (snd (simple_test
          (demo\<lparr>test_cfg := demo_cfg [(''refine_sample'', CStr ''interpolate''),
             (''rcnn'', CDict [(''mask_thr_binary'', CNum (Fin (9/10)))])]\<rparr>)
          demo_img demo_meta None False [])) \<and>
   to_float (tensor_gt [[[[Fin (1/2), Fin (7/10)]]]] (Fin (1/2))) = [[[[Fin 0, Fin 1]]]]"
  by (simp add: run_defs)


subsection \<open>No detections\<close>

text \<open>
  The segmentation stage has a case for an empty detection table: it returns one empty
  entry per foreground class and calls nothing.
\<close>

lemma simple_test_mask_no_detections:
  assumes "img_meta \<noteq> []"
  shows "simple_test_mask self x img_meta [] det_labels rescale tr
           = (Inr (replicate (mask_head_num_classes self - 1) []), tr)"
  using assms
  by (simp add: simple_test_mask_def bind_def lift_def ret_def index_def Let_def)

text \<open>
  The refinement pass has no such case. With a configuration it can read, it runs the
  collaborators on the RoI tensor of the empty table and returns what the box decoder
  returns.
\<close>

lemma refine_test_bboxes_interpolate:
  assumes "getattr (test_cfg self) ''rcnn'' = Inr rcnn"
    and "getattr rcnn ''refine_sample'' = Inr (CStr ''interpolate'')"
    and "getattr rcnn_test_cfg ''rcnn'' = Inr sub"
    and "getattr sub ''mask_thr_binary'' = Inr (CNum thr)"
    and "\<not> with_shared_head self"
    and "img_meta = meta0 # metas"
  shows "fst (refine_test_bboxes self x img_meta candidates rcnn_test_cfg rescale tr)
           = Inr (let rois = bbox2roi self candidates;
                      roi_feats = mask_roi_extractor self
                                    (take (mask_roi_extractor_num_inputs self) x) rois;
                      refine_feats = F_interpolate self roi_feats (7, 7);
                      refine_masks = to_float (tensor_gt (drop_bg (mask_head self roi_feats)) thr);
                      (cls_score, bbox_pred) = mask_iou_head self refine_feats refine_masks
                  in bbox_head_get_det_bboxes self rois cls_score bbox_pred (img_shape meta0)
                       (scale_factor meta0) rescale rcnn_test_cfg)"
  using assms
  by (simp add: refine_test_bboxes_def refine_feats_test_def bind_def lift_def ret_def
        invoke_def index_def Let_def split: prod.splits)

text \<open>
  Claim C8 says that with no provisional detections the refinement pass returns an empty
  result without raising, and the segmentation stage returns one empty entry per
  foreground class without calling the mask head. The second half holds. The refinement
  pass, called by \<^verbatim>\<open>simple_test\<close> on an empty detection table under a configuration with
  \<^verbatim>\<open>test_cfg.rcnn.mask_thr_binary\<close> set, raises on the threshold it reads one section further
  down, after the RoI extractor, the mask head and the resize have run on empty tensors.
\<close>

theorem no_detections_refinement_raises:
  "refine_test_bboxes demo [demo_img] demo_meta (BoxTensor [])
     (demo_rcnn [(''refine_sample'', CStr ''interpolate'')]) False []
     = (Inl (AttributeError ''rcnn''),
        [MaskRoiExtractor [[[[[Fin 0]]]]] [], MaskHead [], Interpolate [] (7, 7)]) \<and>
   simple_test (demo\<lparr>simple_test_bboxes := (\<lambda>x meta ps c rescale. ([], []))\<rparr>) demo_img demo_meta
     None False []
     = (Inl (AttributeError ''rcnn''),
        [ExtractFeat [[[[Fin 0]]]], SimpleTestRpn,
         SimpleTestBboxes (demo_rcnn [(''refine_sample'', CStr ''interpolate'')]),
         MaskRoiExtractor [[[[[Fin 0]]]]] [], MaskHead [], Interpolate [] (7, 7)]) \<and>
   simple_test_mask demo [demo_img] demo_meta [] [] False [] = (Inr [[], []], [])"
  by (simp add: run_defs numeral_2_eq_2)


subsection \<open>Features and mask of the refinement head cover the same regions\<close>




















end
